theory Spec2Isabelle
  imports Main "HOL-Library.Word"
begin

section \<open>The OTLP/HTTP exporter: data model\<close>

text \<open>
  A shallow embedding of the delivery path of the OTLP/HTTP exporter (package
  otlphttpexporter): the three push entry points, \<open>export\<close>, \<open>readResponse\<close> and the
  debug helpers. Collaborators that live outside the package (the protobuf encoder and
  decoder, the text marshalers, the HTTP client, URL parsing) are fields of the record
  \<open>collaborators\<close>; the Go standard library functions whose exact behaviour decides a
  claim (\<open>strconv.Atoi\<close>, \<open>io.ReadFull\<close>, \<open>io.CopyN\<close>, \<open>fmt\<close>'s \<open>%d\<close>, the
  multiplication of \<open>time.Duration\<close>) are written out. The size of Go's \<open>int\<close>
  (\<open>strconv.IntSize\<close>, 32 or 64 bits) is the field \<open>IntSize\<close> of the collaborators.
\<close>

type_synonym byte = "8 word"

subsection \<open>Errors, panics and outcomes\<close>

text \<open>
  A Go \<open>error\<close> value: its message (\<open>Error()\<close>) and the error it wraps
  (\<open>Unwrap()\<close>, set by the verb \<open>%w\<close> of \<open>fmt.Errorf\<close>).
\<close>

datatype go_error = GoError (Error: string) (Unwrap: "go_error option")

text \<open>
  The value a panic carries: one raised by a collaborator, the run-time error of a failed
  type assertion \<open>d.(T)\<close>, and the run-time error of \<open>make([]byte, n)\<close> with \<open>n < 0\<close>.
\<close>

datatype panic_value =
    ForeignPanic string
  | InterfaceConversion string
  | MakesliceLenOutOfRange

text \<open>A call either panics or returns.\<close>

datatype 'a result = Panic panic_value | Return 'a

text \<open>
  Modelled from the spec: the \<open>Outcome\<close> of a push call, "one of Success |
  PermanentFailure(error) | ThrottledFailure(error, retry-after-duration) |
  RetryableFailure(error)". The constructors \<open>consumererror.NewPermanent\<close> and
  \<open>exporterhelper.NewThrottleRetry\<close> are declared outside the files at hand; the Go
  \<open>error\<close> a push returns is read by its outermost form: \<open>nil\<close> is \<open>Success\<close>,
  \<open>consumererror.NewPermanent(err)\<close> is \<open>PermanentFailure err\<close>,
  \<open>exporterhelper.NewThrottleRetry(err, d)\<close> is \<open>ThrottledFailure err d\<close> and any other
  error is \<open>RetryableFailure err\<close>. The duration is a \<open>time.Duration\<close>: a signed 64-bit
  count of nanoseconds.
\<close>

datatype outcome =
    Success
  | PermanentFailure go_error
  | ThrottledFailure go_error int
  | RetryableFailure go_error

subsection \<open>Requests, responses and the decoded status\<close>

text \<open>
  \<open>http.Header\<close> is \<open>map[string][]string\<close> with canonical keys. \<open>Header.Get\<close> returns
  the first value of the key, or the empty string when there is none; \<open>Header.Set\<close>
  replaces the values of the key by one value. The only keys used here
  (\<open>Retry-After\<close>, \<open>Content-Type\<close>, \<open>User-Agent\<close>) are in canonical form already.
\<close>

type_synonym Header = "string \<Rightarrow> string list option"

definition Header_Get :: "Header \<Rightarrow> string \<Rightarrow> string" where
  "Header_Get h key = (case h key of None \<Rightarrow> [] | Some [] \<Rightarrow> [] | Some (v # _) \<Rightarrow> v)"

definition Header_Set :: "Header \<Rightarrow> string \<Rightarrow> string \<Rightarrow> Header" where
  "Header_Set h key v = h(key \<mapsto> [v])"

record request =
  Method :: string
  URL :: string
  ReqHeader :: Header
  ReqBody :: "byte list"

text \<open>
  \<open>http.Response\<close>: \<open>ContentLength\<close> is \<open>-1\<close> when the length is unknown (no
  Content-Length header, as with chunked transfer encoding) and the declared number of
  bytes otherwise; \<open>net/http\<close> produces no value below \<open>-1\<close>. \<open>Body\<close> is the sequence
  of bytes the body reader yields before it ends, at the end of the body or at a read
  error: \<open>export\<close> and \<open>readResponse\<close> only test the error of a read against \<open>nil\<close>.
\<close>

record response =
  StatusCode :: int
  ContentLength :: int
  RespHeader :: Header
  Body :: "byte list"

text \<open>\<open>anypb.Any\<close> and \<open>status.Status\<close> of google.rpc.\<close>

datatype any = Any (TypeUrl: string) (Value: "byte list")

record Status =
  Code :: int
  Message :: string
  Details :: "any list"

subsection \<open>The exporter, its collaborators and its effects\<close>

text \<open>
  The fields of \<open>exporter\<close> the push path reads. \<open>debugEnabled\<close> is
  \<open>e.logger.Core().Enabled(zap.DebugLevel)\<close>.
\<close>

record exporter =
  tracesURL :: string
  metricsURL :: string
  logsURL :: string
  userAgent :: string
  debugEnabled :: bool

text \<open>
  The collaborators, for batches of traces \<open>'t\<close>, metrics \<open>'m\<close> and logs \<open>'l\<close>:
  \<^item> \<open>MarshalProto\<close> of the three request kinds, which returns the payload or an error, or
    panics (the panic that \<open>logAndRethrowIfPanic\<close> is written for);
  \<^item> the text marshalers behind \<open>debugTracesMarshaler\<close>, \<open>debugMetricsMarshaler\<close> and
    \<open>debugLogsMarshaler\<close>;
  \<^item> \<open>urlParse\<close>: the error of \<open>http.NewRequestWithContext\<close> for a URL, if any;
  \<^item> \<open>clientDo\<close>: \<open>e.client.Do\<close>, a response or a transport-level error;
  \<^item> \<open>Unmarshal\<close>: \<open>proto.Unmarshal\<close> into a \<open>status.Status\<close>;
  \<^item> \<open>anyString\<close>: the \<open>String()\<close> method of \<open>*anypb.Any\<close>;
  \<^item> \<open>IntSize\<close>: the size in bits of an \<open>int\<close> on the platform, 32 or 64.

  The text marshalers \<open>MarshalTraces\<close>, \<open>MarshalMetrics\<close> and \<open>MarshalLogs\<close> of this
  record are the well-behaved ones: they return a text or an error and leave the batch
  as they found it. The push functions below are the pushes with such marshalers.
  \<open>pushLogs_live\<close> further below lifts the restriction for the logs: there the text
  marshaler works on the live batch, which it may reorder in place, and may panic.
\<close>

record ('t, 'm, 'l) collaborators =
  TracesMarshalProto :: "'t \<Rightarrow> (go_error + byte list) result"
  MetricsMarshalProto :: "'m \<Rightarrow> (go_error + byte list) result"
  LogsMarshalProto :: "'l \<Rightarrow> (go_error + byte list) result"
  MarshalTraces :: "'t \<Rightarrow> go_error + string"
  MarshalMetrics :: "'m \<Rightarrow> go_error + string"
  MarshalLogs :: "'l \<Rightarrow> go_error + string"
  urlParse :: "string \<Rightarrow> go_error option"
  clientDo :: "request \<Rightarrow> go_error + response"
  Unmarshal :: "byte list \<Rightarrow> go_error + Status"
  anyString :: "any \<Rightarrow> string"
  IntSize :: nat

text \<open>
  What a push call does besides returning: the debug log entries written (message and
  fields), the requests handed to the client, the bytes of the response body read for
  decoding the status, the bytes drained by the deferred \<open>io.CopyN\<close>, and the calls of
  \<open>resp.Body.Close\<close>.
\<close>

record effects =
  debugLog :: "(string \<times> (string \<times> string) list) list"
  sent :: "request list"
  bodyRead :: nat
  bodyDrained :: nat
  bodyClosed :: nat

text \<open>A value of type \<open>interface{}\<close> holding one of the three batch types.\<close>

datatype ('t, 'm, 'l) pdata = ATraces 't | AMetrics 'm | ALogs 'l

section \<open>Standard library functions\<close>

subsection \<open>\<open>strconv.Atoi\<close>\<close>

datatype num_error = ErrSyntax | ErrRange

definition is_digit :: "char \<Rightarrow> bool" where
  "is_digit c = (48 \<le> (of_char c :: nat) \<and> (of_char c :: nat) \<le> 57)"

definition digit_val :: "char \<Rightarrow> nat" where
  "digit_val c = (of_char c :: nat) - 48"

abbreviation maxUint64 :: nat where
  "maxUint64 \<equiv> 18446744073709551615"

text \<open>
  The loop of \<open>strconv.ParseUint(s, 10, bitSize)\<close>, with \<open>maxVal = 1<<bitSize - 1\<close>: a
  character that is not a decimal digit is a syntax error; \<open>n >= cutoff\<close> (with
  \<open>cutoff = maxUint64/10 + 1\<close>) and \<open>n*10 + d\<close> wrapping around or exceeding \<open>maxVal\<close>
  are range errors.
\<close>

fun ParseUint_loop :: "nat \<Rightarrow> string \<Rightarrow> nat \<Rightarrow> num_error + nat" where
  "ParseUint_loop maxVal [] n = Inr n"
| "ParseUint_loop maxVal (c # cs) n =
     (if \<not> is_digit c then Inl ErrSyntax
      else if n \<ge> maxUint64 div 10 + 1 then Inl ErrRange
      else if n * 10 + digit_val c > maxUint64 \<or> n * 10 + digit_val c > maxVal
      then Inl ErrRange
      else ParseUint_loop maxVal cs (n * 10 + digit_val c))"

definition ParseUint :: "nat \<Rightarrow> string \<Rightarrow> num_error + nat" where
  "ParseUint bitSize s =
     (if s = [] then Inl ErrSyntax else ParseUint_loop (2 ^ bitSize - 1) s 0)"

text \<open>
  \<open>strconv.ParseInt(s, 10, 0)\<close>, where the bit size \<open>0\<close> stands for that of \<open>int\<close>: an
  optional sign, then \<open>ParseUint\<close>; a range error of \<open>ParseUint\<close> leaves
  \<open>un = maxVal\<close>, which the check against \<open>cutoff = 1 << (bitSize - 1)\<close> then rejects.
\<close>

definition ParseInt :: "nat \<Rightarrow> string \<Rightarrow> num_error + int" where
  "ParseInt bitSize s =
     (if s = [] then Inl ErrSyntax
      else
        let neg = (hd s = CHR ''-'');
            s1 = (if hd s = CHR ''+'' \<or> hd s = CHR ''-'' then tl s else s)
        in case ParseUint bitSize s1 of
             Inl ErrSyntax \<Rightarrow> Inl ErrSyntax
           | Inl ErrRange \<Rightarrow> Inl ErrRange
           | Inr un \<Rightarrow>
               if \<not> neg \<and> un \<ge> 2 ^ (bitSize - 1) then Inl ErrRange
               else if neg \<and> un > 2 ^ (bitSize - 1) then Inl ErrRange
               else Inr (if neg then - int un else int un))"

text \<open>
  The loop of the fast path of \<open>Atoi\<close>: no overflow is possible below 10 characters
  in 32 bits and below 19 characters in 64 bits.
\<close>

fun Atoi_loop :: "string \<Rightarrow> int \<Rightarrow> num_error + int" where
  "Atoi_loop [] n = Inr n"
| "Atoi_loop (c # cs) n =
     (if \<not> is_digit c then Inl ErrSyntax
      else Atoi_loop cs (n * 10 + int (digit_val c)))"

definition Atoi :: "nat \<Rightarrow> string \<Rightarrow> num_error + int" where
  "Atoi intSize s =
     (if intSize = 32 \<and> (0 < length s \<and> length s < 10)
         \<or> intSize = 64 \<and> (0 < length s \<and> length s < 19) then
        let s1 = (if hd s = CHR ''-'' \<or> hd s = CHR ''+'' then tl s else s)
        in if length s1 < 1 then Inl ErrSyntax
           else case Atoi_loop s1 0 of
                  Inl err \<Rightarrow> Inl err
                | Inr n \<Rightarrow> Inr (if hd s = CHR ''-'' then - n else n)
      else ParseInt intSize s)"

subsection \<open>\<open>fmt\<close>: the verbs \<open>%d\<close> and \<open>%v\<close>\<close>

fun itoa_nat :: "nat \<Rightarrow> string" where
  "itoa_nat n =
     (if n < 10 then [''0123456789'' ! n]
      else itoa_nat (n div 10) @ [''0123456789'' ! (n mod 10)])"

definition Itoa :: "int \<Rightarrow> string" where
  "Itoa i = (if i < 0 then CHR ''-'' # itoa_nat (nat (- i)) else itoa_nat (nat i))"

fun join_space :: "string list \<Rightarrow> string" where
  "join_space [] = []"
| "join_space [s] = s"
| "join_space (s # t # ss) = s @ '' '' @ join_space (t # ss)"

text \<open>
  \<open>%v\<close> of a \<open>[]*anypb.Any\<close>: the elements, each printed by its \<open>String()\<close> method,
  separated by spaces and enclosed in brackets.
\<close>

definition fmt_Details :: "(any \<Rightarrow> string) \<Rightarrow> any list \<Rightarrow> string" where
  "fmt_Details str ds = ''['' @ join_space (map str ds) @ '']''"

subsection \<open>\<open>time.Duration\<close>\<close>

text \<open>
  The product of two \<open>int64\<close> values wraps around:
  \<open>time.Duration(retryAfter) * time.Second\<close> is the product modulo \<open>2 ^ 64\<close>, read as a
  signed number.
\<close>

definition wrap_int64 :: "int \<Rightarrow> int" where
  "wrap_int64 i = (i + 2 ^ 63) mod 2 ^ 64 - 2 ^ 63"

abbreviation Second :: int where
  "Second \<equiv> 1000000000"

definition Duration_times :: "int \<Rightarrow> int \<Rightarrow> int" where
  "Duration_times a b = wrap_int64 (a * b)"

subsection \<open>\<open>io.ReadFull\<close> and \<open>io.CopyN\<close>\<close>

datatype io_error = EOF | ErrUnexpectedEOF

text \<open>
  \<open>io.ReadFull(r, buf)\<close> on a reader that yields \<open>body\<close>, with \<open>len(buf) = len\<close>:
  the bytes read, their number, the error (\<open>EOF\<close> when nothing was read,
  \<open>ErrUnexpectedEOF\<close> when the reader ended before the buffer was full) and what is
  left in the reader.
\<close>

definition ReadFull :: "byte list \<Rightarrow> nat \<Rightarrow> byte list \<times> nat \<times> io_error option \<times> byte list" where
  "ReadFull body len =
     (let got = take len body; n = length got
      in (got, n,
          (if n = len then None else if n = 0 then Some EOF else Some ErrUnexpectedEOF),
          drop len body))"

text \<open>\<open>io.CopyN(ioutil.Discard, r, n)\<close>: the number of bytes taken from the reader.\<close>

definition CopyN_Discard :: "byte list \<Rightarrow> nat \<Rightarrow> nat" where
  "CopyN_Discard body n = length (take n body)"

section \<open>The exporter\<close>

abbreviation headerRetryAfter :: string where
  "headerRetryAfter \<equiv> ''Retry-After''"

abbreviation maxHTTPResponseReadBytes :: int where
  "maxHTTPResponseReadBytes \<equiv> 64 * 1024"

abbreviation StatusBadRequest :: int where
  "StatusBadRequest \<equiv> 400"

abbreviation StatusTooManyRequests :: int where
  "StatusTooManyRequests \<equiv> 429"

abbreviation StatusServiceUnavailable :: int where
  "StatusServiceUnavailable \<equiv> 503"

text \<open>\<open>e.logger.Debug(msg, fields...)\<close>: written only when the debug level is enabled.\<close>

definition Debug :: "exporter \<Rightarrow> string \<Rightarrow> (string \<times> string) list \<Rightarrow> effects \<Rightarrow> effects" where
  "Debug e msg kvs w =
     (if debugEnabled e then w\<lparr>debugLog := debugLog w @ [(msg, kvs)]\<rparr> else w)"

text \<open>
  The local \<open>maxRead\<close> of \<open>readResponse\<close>: the declared content length, or the cap
  when the length is unknown or larger than the cap.
\<close>

definition maxRead :: "response \<Rightarrow> int" where
  "maxRead resp =
     (if ContentLength resp = - 1 \<or> ContentLength resp > maxHTTPResponseReadBytes
      then maxHTTPResponseReadBytes else ContentLength resp)"

text \<open>
  \<open>readResponse\<close>: what is left of the body, and the decoded status or \<open>nil\<close>.
  \<open>make([]byte, maxRead)\<close> panics on a negative length.
\<close>

definition readResponse ::
  "('t, 'm, 'l) collaborators \<Rightarrow> response \<Rightarrow> byte list \<times> Status option result" where
  "readResponse env resp =
     (if StatusCode resp \<ge> 400 \<and> StatusCode resp \<le> 599 then
        if maxRead resp < 0 then (Body resp, Panic MakesliceLenOutOfRange)
        else
          case ReadFull (Body resp) (nat (maxRead resp)) of
            (respBytes, n, err, rest) \<Rightarrow>
              if err = None \<and> n > 0 then
                (case Unmarshal env respBytes of
                   Inl _ \<Rightarrow> (rest, Return None)
                 | Inr respStatus \<Rightarrow> (rest, Return (Some respStatus)))
              else (rest, Return None)
      else (Body resp, Return None))"

text \<open>The two forms of \<open>formattedErr\<close>.\<close>

definition formattedErr ::
  "('t, 'm, 'l) collaborators \<Rightarrow> string \<Rightarrow> int \<Rightarrow> Status option \<Rightarrow> go_error" where
  "formattedErr env url code respStatus =
     (case respStatus of
        Some st \<Rightarrow>
          GoError (''error exporting items, request to '' @ url @
                   '' responded with HTTP Status Code '' @ Itoa code @
                   '', Message='' @ Message st @
                   '', Details='' @ fmt_Details (anyString env) (Details st)) None
      | None \<Rightarrow>
          GoError (''error exporting items, request to '' @ url @
                   '' responded with HTTP Status Code '' @ Itoa code) None)"

text \<open>The number of seconds \<open>export\<close> reads from the \<open>Retry-After\<close> header.\<close>

definition retryAfter :: "('t, 'm, 'l) collaborators \<Rightarrow> response \<Rightarrow> int" where
  "retryAfter env resp =
     (let val = Header_Get (RespHeader resp) headerRetryAfter
      in if val \<noteq> [] then
           (case Atoi (IntSize env) val of Inr seconds \<Rightarrow> seconds | Inl _ \<Rightarrow> 0)
         else 0)"

text \<open>
  The part of \<open>export\<close> after the response has arrived, up to its \<open>return\<close>: what is
  left of the body, and the result.
\<close>

definition classify ::
  "('t, 'm, 'l) collaborators \<Rightarrow> string \<Rightarrow> response \<Rightarrow> byte list \<times> outcome result" where
  "classify env url resp =
     (if StatusCode resp \<ge> 200 \<and> StatusCode resp \<le> 299 then (Body resp, Return Success)
      else
        case readResponse env resp of
          (rest, Panic p) \<Rightarrow> (rest, Panic p)
        | (rest, Return respStatus) \<Rightarrow>
            let ferr = formattedErr env url (StatusCode resp) respStatus
            in if StatusCode resp = StatusTooManyRequests
                  \<or> StatusCode resp = StatusServiceUnavailable then
                 (rest, Return (ThrottledFailure ferr (Duration_times (retryAfter env resp) Second)))
               else if StatusCode resp = StatusBadRequest then
                 (rest, Return (PermanentFailure ferr))
               else (rest, Return (RetryableFailure ferr)))"

text \<open>
  The request \<open>export\<close> hands to the client: \<open>http.NewRequestWithContext\<close> with the
  method POST, then the two \<open>Header.Set\<close> calls.
\<close>

definition newRequest :: "exporter \<Rightarrow> string \<Rightarrow> byte list \<Rightarrow> request" where
  "newRequest e url payload =
     (let req = \<lparr>Method = ''POST'', URL = url, ReqHeader = Map.empty, ReqBody = payload\<rparr>;
          req = req\<lparr>ReqHeader := Header_Set (ReqHeader req) ''Content-Type'' ''application/x-protobuf''\<rparr>
      in req\<lparr>ReqHeader := Header_Set (ReqHeader req) ''User-Agent'' (userAgent e)\<rparr>)"

text \<open>
  \<open>export\<close>, of a started exporter (\<open>e.client\<close> is set). The deferred function runs
  when the function leaves after the response has arrived, by a return or by a panic:
  it drains at most \<open>maxHTTPResponseReadBytes\<close> of what is left of the body and closes
  it.
\<close>

definition export ::
  "('t, 'm, 'l) collaborators \<Rightarrow> exporter \<Rightarrow> string \<Rightarrow> byte list \<Rightarrow> effects
     \<Rightarrow> effects \<times> outcome result" where
  "export env e url payload w0 =
     (let w1 = Debug e ''Preparing to make HTTP request'' [(''url'', url)] w0
      in case urlParse env url of
           Some err \<Rightarrow> (w1, Return (PermanentFailure err))
         | None \<Rightarrow>
             let req = newRequest e url payload;
                 w2 = w1\<lparr>sent := sent w1 @ [req]\<rparr>
             in (case clientDo env req of
                   Inl err \<Rightarrow>
                     (w2, Return (RetryableFailure
                        (GoError (''failed to make an HTTP request: '' @ Error err) (Some err))))
                 | Inr resp \<Rightarrow>
                     (case classify env url resp of
                        (rest, r) \<Rightarrow>
                          (w2\<lparr>bodyRead := bodyRead w2 + (length (Body resp) - length rest),
                              bodyDrained := bodyDrained w2
                                + CopyN_Discard rest (nat maxHTTPResponseReadBytes),
                              bodyClosed := bodyClosed w2 + 1\<rparr>, r))))"

subsection \<open>Debug rendering\<close>

definition logTextMetricsWithErrorHandled ::
  "('t, 'm, 'l) collaborators \<Rightarrow> exporter \<Rightarrow> ('t, 'm, 'l) pdata \<Rightarrow> effects
     \<Rightarrow> effects \<times> string result" where
  "logTextMetricsWithErrorHandled env e d w =
     (case d of
        AMetrics md \<Rightarrow>
          (case MarshalMetrics env md of
             Inl err \<Rightarrow>
               (Debug e ''Text Marshal failed for metrics: %v'' [(''error'', Error err)] w,
                Return ''Text marshal metrics failed for metrics.'')
           | Inr buf \<Rightarrow> (w, Return buf))
      | ATraces _ \<Rightarrow>
          (w, Panic (InterfaceConversion ''interface {} is ptrace.Traces, not pmetric.Metrics''))
      | ALogs _ \<Rightarrow>
          (w, Panic (InterfaceConversion ''interface {} is plog.Logs, not pmetric.Metrics'')))"

definition logTextTracesWithErrorHandled ::
  "('t, 'm, 'l) collaborators \<Rightarrow> exporter \<Rightarrow> 't \<Rightarrow> effects \<Rightarrow> effects \<times> string result" where
  "logTextTracesWithErrorHandled env e td w =
     (case MarshalTraces env td of
        Inl err \<Rightarrow>
          (Debug e ''Text Marshal failed for traces: %v'' [(''error'', Error err)] w,
           Return ''Text marshal metrics failed for traces.'')
      | Inr buf \<Rightarrow> (w, Return buf))"

definition logTextLogsWithErrorHandled ::
  "('t, 'm, 'l) collaborators \<Rightarrow> exporter \<Rightarrow> 'l \<Rightarrow> effects \<Rightarrow> effects \<times> string result" where
  "logTextLogsWithErrorHandled env e ld w =
     (case MarshalLogs env ld of
        Inl err \<Rightarrow>
          (Debug e ''Text Marshal failed for logs: %v'' [(''error'', Error err)] w,
           Return ''Text marshal metrics failed for logs.'')
      | Inr buf \<Rightarrow> (w, Return buf))"

text \<open>
  \<open>logAndRethrowIfPanic\<close>, deferred: applied to the state and result the function body
  left. Without a panic \<open>recover()\<close> is \<open>nil\<close> and nothing happens. With a panic \<open>r\<close> it
  logs, calls \<open>marshalWithErrorHandled\<close> and panics with \<open>r\<close> again; a panic of
  \<open>marshalWithErrorHandled\<close> itself takes the place of \<open>r\<close>.
\<close>

definition logAndRethrowIfPanic ::
  "exporter \<Rightarrow> string \<Rightarrow> (effects \<Rightarrow> effects \<times> string result)
     \<Rightarrow> effects \<times> 'a result \<Rightarrow> effects \<times> 'a result" where
  "logAndRethrowIfPanic e beforeMarshal marshalWithErrorHandled wr =
     (case wr of
        (w, Return x) \<Rightarrow> (w, Return x)
      | (w, Panic r) \<Rightarrow>
          let w1 = Debug e (''Before panic: '' @ beforeMarshal) [] w
          in (case marshalWithErrorHandled w1 of
                (w2, Panic q) \<Rightarrow> (w2, Panic q)
              | (w2, Return s) \<Rightarrow> (Debug e (''Panic: '' @ s) [] w2, Panic r)))"

subsection \<open>The push entry points\<close>

definition pushTraces ::
  "('t, 'm, 'l) collaborators \<Rightarrow> exporter \<Rightarrow> 't \<Rightarrow> effects \<Rightarrow> effects \<times> outcome result" where
  "pushTraces env e td w =
     (let body = (\<lambda>w. case TracesMarshalProto env td of
                        Panic p \<Rightarrow> (w, Panic p)
                      | Return (Inl err) \<Rightarrow> (w, Return (PermanentFailure err))
                      | Return (Inr request) \<Rightarrow> export env e (tracesURL e) request w)
      in if debugEnabled e then
           case logTextTracesWithErrorHandled env e td w of
             (w1, Panic p) \<Rightarrow> (w1, Panic p)
           | (w1, Return beforeMarshal) \<Rightarrow>
               logAndRethrowIfPanic e beforeMarshal
                 (logTextTracesWithErrorHandled env e td) (body w1)
         else body w)"

definition pushMetrics ::
  "('t, 'm, 'l) collaborators \<Rightarrow> exporter \<Rightarrow> 'm \<Rightarrow> effects \<Rightarrow> effects \<times> outcome result" where
  "pushMetrics env e md w =
     (let body = (\<lambda>w. case MetricsMarshalProto env md of
                        Panic p \<Rightarrow> (w, Panic p)
                      | Return (Inl err) \<Rightarrow> (w, Return (PermanentFailure err))
                      | Return (Inr request) \<Rightarrow> export env e (metricsURL e) request w)
      in if debugEnabled e then
           case logTextMetricsWithErrorHandled env e (AMetrics md) w of
             (w1, Panic p) \<Rightarrow> (w1, Panic p)
           | (w1, Return beforeMarshal) \<Rightarrow>
               logAndRethrowIfPanic e beforeMarshal
                 (logTextMetricsWithErrorHandled env e (AMetrics md)) (body w1)
         else body w)"

definition pushLogs ::
  "('t, 'm, 'l) collaborators \<Rightarrow> exporter \<Rightarrow> 'l \<Rightarrow> effects \<Rightarrow> effects \<times> outcome result" where
  "pushLogs env e ld w =
     (let body = (\<lambda>w. case LogsMarshalProto env ld of
                        Panic p \<Rightarrow> (w, Panic p)
                      | Return (Inl err) \<Rightarrow> (w, Return (PermanentFailure err))
                      | Return (Inr request) \<Rightarrow> export env e (logsURL e) request w)
      in if debugEnabled e then
           case logTextLogsWithErrorHandled env e ld w of
             (w1, Panic p) \<Rightarrow> (w1, Panic p)
           | (w1, Return beforeMarshal) \<Rightarrow>
               logAndRethrowIfPanic e beforeMarshal
                 (logTextMetricsWithErrorHandled env e (ALogs ld)) (body w1)
         else body w)"

text \<open>
  The statements the three push functions share after their debug prelude, given what
  \<open>MarshalProto\<close> did: a panic goes on, an error is returned as permanent, a payload
  is handed to \<open>export\<close>. The proofs read the push functions through it.
\<close>

definition push_tail ::
  "(go_error + byte list) result \<Rightarrow> ('t, 'm, 'l) collaborators \<Rightarrow> exporter \<Rightarrow> string
     \<Rightarrow> effects \<Rightarrow> effects \<times> outcome result" where
  "push_tail marshalled env e url w =
     (case marshalled of
        Panic p \<Rightarrow> (w, Panic p)
      | Return (Inl err) \<Rightarrow> (w, Return (PermanentFailure err))
      | Return (Inr request) \<Rightarrow> export env e url request w)"

subsection \<open>The logs push with the text marshaler on the live batch\<close>

text \<open>
  \<open>logTextLogsWithErrorHandled\<close> calls \<open>e.debugLogsMarshaler.MarshalLogs(ld)\<close> on the
  batch the caller handed over, before \<open>pushLogs\<close> has deferred its handler and before
  the batch is encoded. The marshaler may sort the maps of the batch in place, and a
  panic of it is recovered nowhere. \<open>marshalLogs ld\<close> is what the call does: it panics,
  or it returns the batch as it leaves it together with the text or the error. The
  helper hands on the batch as it is left, with the text for the log.
\<close>

definition logTextLogsWithErrorHandled_live ::
  "('l \<Rightarrow> ('l \<times> (go_error + string)) result) \<Rightarrow> exporter \<Rightarrow> 'l \<Rightarrow> effects
     \<Rightarrow> effects \<times> ('l \<times> string) result" where
  "logTextLogsWithErrorHandled_live marshalLogs e ld w =
     (case marshalLogs ld of
        Panic p \<Rightarrow> (w, Panic p)
      | Return (ld', Inl err) \<Rightarrow>
          (Debug e ''Text Marshal failed for logs: %v'' [(''error'', Error err)] w,
           Return (ld', ''Text marshal metrics failed for logs.''))
      | Return (ld', Inr buf) \<Rightarrow> (w, Return (ld', buf)))"

text \<open>
  \<open>pushLogs\<close> with that marshaler. With debug logging enabled, \<open>MarshalProto\<close> and the
  deferred handler see the batch as the text marshaler left it; a panic of the text
  marshaler leaves the function at once. With debug logging disabled the text
  marshaler is not called.
\<close>

definition pushLogs_live ::
  "('t, 'm, 'l) collaborators \<Rightarrow> ('l \<Rightarrow> ('l \<times> (go_error + string)) result) \<Rightarrow> exporter
     \<Rightarrow> 'l \<Rightarrow> effects \<Rightarrow> effects \<times> outcome result" where
  "pushLogs_live env marshalLogs e ld w =
     (let body = (\<lambda>ld w. case LogsMarshalProto env ld of
                           Panic p \<Rightarrow> (w, Panic p)
                         | Return (Inl err) \<Rightarrow> (w, Return (PermanentFailure err))
                         | Return (Inr request) \<Rightarrow> export env e (logsURL e) request w)
      in if debugEnabled e then
           case logTextLogsWithErrorHandled_live marshalLogs e ld w of
             (w1, Panic p) \<Rightarrow> (w1, Panic p)
           | (w1, Return (ld', beforeMarshal)) \<Rightarrow>
               logAndRethrowIfPanic e beforeMarshal
                 (logTextMetricsWithErrorHandled env e (ALogs ld')) (body ld' w1)
         else body ld w)"

text \<open>
  Two states of the effects that differ in the debug log at most: the same requests
  sent, the same bytes read and drained, the same bodies closed.
\<close>

definition same_traffic :: "effects \<Rightarrow> effects \<Rightarrow> bool" where
  "same_traffic w w' =
     (sent w' = sent w \<and> bodyRead w' = bodyRead w \<and> bodyDrained w' = bodyDrained w
      \<and> bodyClosed w' = bodyClosed w)"

section \<open>Concrete inputs\<close>

text \<open>
  An exporter, collaborators and responses on which the theorems below are run. The
  collaborators are given by what the encoder returns for the batch, what the client
  returns for the request, and the decoder of status bodies; the platform is a 64-bit
  one.
\<close>

definition example_exporter :: "bool \<Rightarrow> exporter" where
  "example_exporter dbg =
     \<lparr>tracesURL = ''http://collector:4318/v1/traces'',
      metricsURL = ''http://collector:4318/v1/metrics'',
      logsURL = ''http://collector:4318/v1/logs'',
      userAgent = ''otelcol/0.50.0 (linux/amd64)'',
      debugEnabled = dbg\<rparr>"

definition example_env ::
  "(go_error + byte list) result \<Rightarrow> (go_error + response)
     \<Rightarrow> (byte list \<Rightarrow> go_error + Status) \<Rightarrow> (unit, unit, unit) collaborators" where
  "example_env encoded answer decode =
     \<lparr>TracesMarshalProto = (\<lambda>_. encoded),
      MetricsMarshalProto = (\<lambda>_. encoded),
      LogsMarshalProto = (\<lambda>_. encoded),
      MarshalTraces = (\<lambda>_. Inr ''ResourceSpans #0''),
      MarshalMetrics = (\<lambda>_. Inr ''ResourceMetrics #0''),
      MarshalLogs = (\<lambda>_. Inr ''ResourceLog #0''),
      urlParse = (\<lambda>_. None),
      clientDo = (\<lambda>_. answer),
      Unmarshal = decode,
      anyString = TypeUrl,
      IntSize = 64\<rparr>"

definition no_effects :: effects where
  "no_effects = \<lparr>debugLog = [], sent = [], bodyRead = 0, bodyDrained = 0, bodyClosed = 0\<rparr>"

definition example_response :: "int \<Rightarrow> int \<Rightarrow> Header \<Rightarrow> byte list \<Rightarrow> response" where
  "example_response code len hdr bytes =
     \<lparr>StatusCode = code, ContentLength = len, RespHeader = hdr, Body = bytes\<rparr>"

text \<open>A decoder that rejects every body.\<close>

definition undecodable :: "byte list \<Rightarrow> go_error + Status" where
  "undecodable bs = Inl (GoError ''proto: cannot parse invalid wire-format data'' None)"

text \<open>
  The protobuf encoding of a \<open>status.Status\<close> with the message \<open>overloaded\<close> and no
  details (field 2, length 10, then the ten characters), and a decoder that decodes
  these bytes and rejects everything else.
\<close>

definition overloaded_body :: "byte list" where
  "overloaded_body = [18, 10, 111, 118, 101, 114, 108, 111, 97, 100, 101, 100]"

definition decode_overloaded :: "byte list \<Rightarrow> go_error + Status" where
  "decode_overloaded bs =
     (if bs = overloaded_body then Inr \<lparr>Code = 0, Message = ''overloaded'', Details = []\<rparr>
      else undecodable bs)"

text \<open>
  Collaborators for logs batches in which the order counts: a batch is the list of its
  attribute keys, encoded one byte a key in the order of the list. The text marshaler
  \<open>sorting_marshaler\<close> sorts the keys in place before it prints them; the text
  marshaler \<open>panicking_marshaler\<close> panics.
\<close>

definition ordered_logs_env :: "(go_error + response) \<Rightarrow> (unit, unit, nat list) collaborators" where
  "ordered_logs_env answer =
     \<lparr>TracesMarshalProto = (\<lambda>_. Return (Inr [])),
      MetricsMarshalProto = (\<lambda>_. Return (Inr [])),
      LogsMarshalProto = (\<lambda>ld. Return (Inr (map of_nat ld))),
      MarshalTraces = (\<lambda>_. Inr ''ResourceSpans #0''),
      MarshalMetrics = (\<lambda>_. Inr ''ResourceMetrics #0''),
      MarshalLogs = (\<lambda>_. Inr ''ResourceLog #0''),
      urlParse = (\<lambda>_. None),
      clientDo = (\<lambda>_. answer),
      Unmarshal = undecodable,
      anyString = TypeUrl,
      IntSize = 64\<rparr>"

definition sorting_marshaler :: "nat list \<Rightarrow> (nat list \<times> (go_error + string)) result" where
  "sorting_marshaler ld = Return (sort ld, Inr ''ResourceLog #0'')"

definition panicking_marshaler :: "nat list \<Rightarrow> (nat list \<times> (go_error + string)) result" where
  "panicking_marshaler ld =
     Panic (ForeignPanic ''runtime error: invalid memory address or nil pointer dereference'')"

section \<open>Properties\<close>

declare itoa_nat.simps [simp del]

subsection \<open>Arithmetic of durations\<close>

lemma wrap_int64_id: "- (2 ^ 63) \<le> i \<Longrightarrow> i < 2 ^ 63 \<Longrightarrow> wrap_int64 i = i"
  by (simp add: wrap_int64_def)

lemma seconds_fit:
  "- 9223372036 \<le> n \<Longrightarrow> n \<le> 9223372036 \<Longrightarrow> Duration_times n Second = n * Second"
  unfolding Duration_times_def by (rule wrap_int64_id) simp_all

subsection \<open>Parsing\<close>

lemma Atoi_empty: "Atoi intSize [] = Inl ErrSyntax"
  by (simp add: Atoi_def ParseInt_def)

lemma retryAfter_Atoi:
  "retryAfter env resp =
     (case Atoi (IntSize env) (Header_Get (RespHeader resp) headerRetryAfter) of
        Inr n \<Rightarrow> n | Inl _ \<Rightarrow> 0)"
  by (simp add: retryAfter_def Let_def Atoi_empty)

lemma digit_char:
  assumes "d < 10"
  shows "is_digit (''0123456789'' ! d)" and "digit_val (''0123456789'' ! d) = d"
    and "''0123456789'' ! d \<noteq> CHR ''-''" and "''0123456789'' ! d \<noteq> CHR ''+''"
proof -
  from assms have "d \<in> {0, 1, 2, 3, 4, 5, 6, 7, 8, 9}" by auto
  then show "is_digit (''0123456789'' ! d)" and "digit_val (''0123456789'' ! d) = d"
    and "''0123456789'' ! d \<noteq> CHR ''-''" and "''0123456789'' ! d \<noteq> CHR ''+''"
    by (auto simp: is_digit_def digit_val_def)
qed

lemma itoa_nat_nonempty: "itoa_nat n \<noteq> []"
  by (subst itoa_nat.simps) simp

lemma hd_itoa_nat: "hd (itoa_nat n) \<noteq> CHR ''-'' \<and> hd (itoa_nat n) \<noteq> CHR ''+''"
proof (induction n rule: itoa_nat.induct)
  case (1 n)
  show ?case
  proof (cases "n < 10")
    case True
    then show ?thesis by (subst (1 2) itoa_nat.simps) (simp add: digit_char)
  next
    case False
    with 1 show ?thesis
      by (subst (1 2) itoa_nat.simps) (simp add: itoa_nat_nonempty)
  qed
qed

lemma Atoi_loop_snoc:
  "Atoi_loop (xs @ [c]) acc =
     (case Atoi_loop xs acc of
        Inl err \<Rightarrow> Inl err
      | Inr m \<Rightarrow> if \<not> is_digit c then Inl ErrSyntax else Inr (m * 10 + int (digit_val c)))"
  by (induction xs arbitrary: acc) auto

lemma Atoi_loop_itoa_nat: "Atoi_loop (itoa_nat n) 0 = Inr (int n)"
proof (induction n rule: itoa_nat.induct)
  case (1 n)
  show ?case
  proof (cases "n < 10")
    case True
    then show ?thesis by (subst itoa_nat.simps) (simp add: digit_char)
  next
    case False
    then have "Atoi_loop (itoa_nat (n div 10)) 0 = Inr (int (n div 10))"
      using 1 by simp
    moreover have "int (n div 10) * 10 + int (n mod 10) = int n"
      by (simp add: zdiv_int zmod_int)
    ultimately show ?thesis
      using False by (subst itoa_nat.simps) (simp add: Atoi_loop_snoc digit_char)
  qed
qed

lemma ParseUint_loop_snoc:
  "ParseUint_loop maxVal (xs @ [c]) acc =
     (case ParseUint_loop maxVal xs acc of
        Inl err \<Rightarrow> Inl err
      | Inr m \<Rightarrow>
          if \<not> is_digit c then Inl ErrSyntax
          else if m \<ge> maxUint64 div 10 + 1 then Inl ErrRange
          else if m * 10 + digit_val c > maxUint64 \<or> m * 10 + digit_val c > maxVal
          then Inl ErrRange
          else Inr (m * 10 + digit_val c))"
  by (induction xs arbitrary: acc) auto

lemma ParseUint_loop_itoa_nat:
  "n \<le> maxVal \<Longrightarrow> maxVal \<le> maxUint64 \<Longrightarrow> ParseUint_loop maxVal (itoa_nat n) 0 = Inr n"
proof (induction n rule: itoa_nat.induct)
  case (1 n)
  show ?case
  proof (cases "n < 10")
    case True
    with "1.prems" show ?thesis by (subst itoa_nat.simps) (simp add: digit_char)
  next
    case False
    have "n div 10 \<le> maxVal" using "1.prems" by simp
    then have ih: "ParseUint_loop maxVal (itoa_nat (n div 10)) 0 = Inr (n div 10)"
      using 1 False by simp
    have small: "\<not> (n div 10 \<ge> maxUint64 div 10 + 1)"
      using "1.prems" by simp
    have whole: "n div 10 * 10 + n mod 10 = n" by simp
    show ?thesis
      using False ih small "1.prems"
      by (subst itoa_nat.simps)
        (simp add: ParseUint_loop_snoc digit_char whole del: div_mult_mod_eq)
  qed
qed

lemma ParseUint_itoa_nat:
  assumes "intSize = 32 \<or> intSize = 64" and "n \<le> 2 ^ (intSize - 1)"
  shows "ParseUint intSize (itoa_nat n) = Inr n"
proof -
  have "n \<le> 2 ^ intSize - 1 \<and> (2 :: nat) ^ intSize - 1 \<le> maxUint64"
    using assms by auto
  then show ?thesis
    by (simp add: ParseUint_def itoa_nat_nonempty ParseUint_loop_itoa_nat)
qed

lemma Atoi_itoa_nat:
  assumes "intSize = 32 \<or> intSize = 64" and "n < 2 ^ (intSize - 1)"
  shows "Atoi intSize (itoa_nat n) = Inr (int n)"
proof -
  have "ParseInt intSize (itoa_nat n) = Inr (int n)"
    using assms hd_itoa_nat [of n] ParseUint_itoa_nat [of intSize n]
    by (simp add: ParseInt_def itoa_nat_nonempty Let_def)
  then show ?thesis
    using hd_itoa_nat [of n] itoa_nat_nonempty [of n]
    by (simp add: Atoi_def Let_def Atoi_loop_itoa_nat)
qed

lemma Atoi_minus_itoa_nat:
  assumes "intSize = 32 \<or> intSize = 64" and "n \<le> 2 ^ (intSize - 1)"
  shows "Atoi intSize (CHR ''-'' # itoa_nat n) = Inr (- int n)"
proof -
  have "ParseInt intSize (CHR ''-'' # itoa_nat n) = Inr (- int n)"
    using assms ParseUint_itoa_nat [of intSize n]
    by (simp add: ParseInt_def Let_def)
  then show ?thesis
    using itoa_nat_nonempty [of n]
    by (simp add: Atoi_def Let_def Atoi_loop_itoa_nat)
qed

text \<open>
  \<open>Atoi\<close> reads back every decimal numeral of the \<open>int\<close> range, the negative ones
  included.
\<close>

lemma Atoi_Itoa:
  assumes "intSize = 32 \<or> intSize = 64"
    and "- (2 ^ (intSize - 1)) \<le> i" and "i < 2 ^ (intSize - 1)"
  shows "Atoi intSize (Itoa i) = Inr i"
proof (cases "i < 0")
  case True
  have "nat (- i) \<le> 2 ^ (intSize - 1)"
    using assms(2) by (simp add: nat_le_iff)
  then show ?thesis
    using True Atoi_minus_itoa_nat [OF assms(1), of "nat (- i)"] by (simp add: Itoa_def)
next
  case False
  have "nat i < 2 ^ (intSize - 1)"
    using assms(3) False by (simp add: nat_less_iff)
  then show ?thesis
    using False Atoi_itoa_nat [OF assms(1), of "nat i"] by (simp add: Itoa_def)
qed

subsection \<open>Reading the response\<close>

lemma maxRead_bounds: "- 1 \<le> ContentLength resp \<Longrightarrow> 0 \<le> maxRead resp"
  and maxRead_cap: "maxRead resp \<le> maxHTTPResponseReadBytes"
  by (simp_all add: maxRead_def)

lemma readResponse_returns:
  "- 1 \<le> ContentLength resp \<Longrightarrow> \<exists>rest st. readResponse env resp = (rest, Return st)"
  using maxRead_bounds [of resp]
  by (auto simp: readResponse_def split: prod.splits sum.splits)

lemma export_classify:
  "urlParse env url = None \<Longrightarrow> clientDo env (newRequest e url payload) = Inr resp \<Longrightarrow>
   snd (export env e url payload w) = snd (classify env url resp)"
  by (simp add: export_def Let_def split: prod.splits)

lemma example_built:
  "urlParse (example_env encoded answer decode) url = None"
  "clientDo (example_env encoded answer decode) req = answer"
  "Unmarshal (example_env encoded answer decode) = decode"
  "IntSize (example_env encoded answer decode) = 64"
  by (simp_all add: example_env_def)

subsection \<open>Throttling: 429 and 503\<close>

text \<open>
  Claim C1, as amended. For a response with status code 429 or 503 (and a content length
  of at least \<open>-1\<close>), \<open>export\<close> returns a \<open>ThrottledFailure\<close>. Its duration is \<open>n\<close>
  seconds when the first value of the \<open>Retry-After\<close> header parses as the integer \<open>n\<close>
  and \<open>n\<close> seconds fit a \<open>time.Duration\<close>, that is
  \<open>-9223372036 \<le> n \<le> 9223372036\<close> (every \<open>int\<close> of a 32-bit platform does); it is
  \<open>0\<close> when the header is absent and when its value does not parse as an \<open>int\<close>.
  The duration is counted in nanoseconds, \<open>Second\<close> of them to the second.
\<close>

theorem export_throttled:
  assumes "urlParse env url = None"
    and "clientDo env (newRequest e url payload) = Inr resp"
    and "StatusCode resp = 429 \<or> StatusCode resp = 503"
    and "- 1 \<le> ContentLength resp"
  shows "\<exists>err d. snd (export env e url payload w) = Return (ThrottledFailure err d) \<and>
           (\<forall>n. Atoi (IntSize env) (Header_Get (RespHeader resp) headerRetryAfter) = Inr n
                  \<and> - 9223372036 \<le> n \<and> n \<le> 9223372036 \<longrightarrow> d = n * Second) \<and>
           (RespHeader resp headerRetryAfter = None \<longrightarrow> d = 0) \<and>
           (\<forall>ne. Atoi (IntSize env) (Header_Get (RespHeader resp) headerRetryAfter) = Inl ne
                  \<longrightarrow> d = 0)"
proof -
  obtain rest st where r: "readResponse env resp = (rest, Return st)"
    using readResponse_returns [OF assms(4)] by blast
  let ?d = "Duration_times (retryAfter env resp) Second"
  have "snd (classify env url resp)
          = Return (ThrottledFailure (formattedErr env url (StatusCode resp) st) ?d)"
    using assms(3) r by (auto simp: classify_def)
  then have ex: "snd (export env e url payload w)
          = Return (ThrottledFailure (formattedErr env url (StatusCode resp) st) ?d)"
    using export_classify [OF assms(1,2)] by simp
  have parsed: "?d = n * Second"
    if "Atoi (IntSize env) (Header_Get (RespHeader resp) headerRetryAfter) = Inr n"
      and "- 9223372036 \<le> n" and "n \<le> 9223372036" for n
    using that
    by (simp add: retryAfter_Atoi seconds_fit)
  have absent: "RespHeader resp headerRetryAfter = None \<Longrightarrow> ?d = 0"
    by (simp add: retryAfter_def Header_Get_def Duration_times_def wrap_int64_def)
  have unparsed: "?d = 0"
    if "Atoi (IntSize env) (Header_Get (RespHeader resp) headerRetryAfter) = Inl ne" for ne
    using that by (simp add: retryAfter_Atoi Duration_times_def wrap_int64_def)
  show ?thesis
  proof (intro exI conjI allI impI)
    show "snd (export env e url payload w)
            = Return (ThrottledFailure (formattedErr env url (StatusCode resp) st) ?d)"
      by (rule ex)
  qed (auto simp: parsed absent unparsed)
qed

text \<open>
  The spec's examples: status 429 with \<open>Retry-After: 5\<close> gives five seconds, status 503
  without the header gives none.
\<close>

theorem export_throttled_witness:
  "(\<exists>err. snd (export
      (example_env (Return (Inr []))
         (Inr (example_response 429 0 [headerRetryAfter \<mapsto> [''5'']] [])) undecodable)
      (example_exporter False) ''http://collector:4318/v1/logs'' [] no_effects)
    = Return (ThrottledFailure err (5 * Second)))
   \<and> (\<exists>err. snd (export
      (example_env (Return (Inr []))
         (Inr (example_response 503 0 Map.empty [])) undecodable)
      (example_exporter False) ''http://collector:4318/v1/logs'' [] no_effects)
    = Return (ThrottledFailure err 0))"
proof -
  let ?url = "''http://collector:4318/v1/logs''"
  let ?r429 = "example_response 429 0 [headerRetryAfter \<mapsto> [''5'']] []"
  let ?e429 = "example_env (Return (Inr [])) (Inr ?r429) undecodable"
  let ?r503 = "example_response 503 0 Map.empty []"
  let ?e503 = "example_env (Return (Inr [])) (Inr ?r503) undecodable"
  have five: "Atoi (IntSize ?e429) (Header_Get (RespHeader ?r429) headerRetryAfter) = Inr 5"
    by (simp add: example_built example_response_def Header_Get_def Atoi_def is_digit_def
        digit_val_def)
  have "urlParse ?e429 ?url = None"
    and "clientDo ?e429 (newRequest (example_exporter False) ?url []) = Inr ?r429"
    and "StatusCode ?r429 = 429 \<or> StatusCode ?r429 = 503"
    and "- 1 \<le> ContentLength ?r429"
    by (simp_all add: example_built example_response_def)
  from export_throttled [OF this, of no_effects] five
  have a: "\<exists>err. snd (export ?e429 (example_exporter False) ?url [] no_effects)
             = Return (ThrottledFailure err (5 * Second))"
    by fastforce
  have absent: "RespHeader ?r503 headerRetryAfter = None"
    by (simp add: example_response_def)
  have "urlParse ?e503 ?url = None"
    and "clientDo ?e503 (newRequest (example_exporter False) ?url []) = Inr ?r503"
    and "StatusCode ?r503 = 429 \<or> StatusCode ?r503 = 503"
    and "- 1 \<le> ContentLength ?r503"
    by (simp_all add: example_built example_response_def)
  from export_throttled [OF this, of no_effects] absent
  have b: "\<exists>err. snd (export ?e503 (example_exporter False) ?url [] no_effects)
             = Return (ThrottledFailure err 0)"
    by fastforce
  from a b show ?thesis by blast
qed

text \<open>
  Claim C1 as stated fails where the number of seconds does not fit a \<open>time.Duration\<close>:
  on a 64-bit platform \<open>Retry-After: 9223372037\<close> parses as \<open>9223372037\<close>, and the
  product with \<open>time.Second\<close> wraps around to a negative duration.
\<close>

theorem export_throttled_overflow:
  "Atoi 64 ''9223372037'' = Inr 9223372037 \<and>
   snd (export
      (example_env (Return (Inr []))
         (Inr (example_response 429 0 [headerRetryAfter \<mapsto> [''9223372037'']] [])) undecodable)
      (example_exporter False) ''http://collector:4318/v1/logs'' [] no_effects)
    = Return (ThrottledFailure
        (GoError (''error exporting items, request to http://collector:4318/v1/logs''
                  @ '' responded with HTTP Status Code 429'') None)
        (- 9223372036709551616))
   \<and> (- 9223372036709551616 :: int) \<noteq> 9223372037 * Second"
  by (simp add: export_def classify_def readResponse_def maxRead_def ReadFull_def
      formattedErr_def retryAfter_def Header_Get_def Atoi_def is_digit_def digit_val_def
      Duration_times_def wrap_int64_def example_env_def example_response_def
      example_exporter_def no_effects_def Debug_def undecodable_def Itoa_def itoa_nat.simps
      Let_def)

text \<open>
  Claim C10, as amended. For a response with status code 429 or 503 whose \<open>Retry-After\<close>
  value parses as a negative integer \<open>n\<close> with \<open>-9223372036 \<le> n\<close>, \<open>export\<close> returns a
  \<open>ThrottledFailure\<close> whose duration is \<open>n\<close> seconds, a negative duration: the value is
  neither clamped to zero nor treated as non-numeric. (By \<open>Atoi_Itoa\<close> every negative
  decimal numeral of the \<open>int\<close> range parses.)
\<close>

theorem export_throttled_negative:
  assumes "urlParse env url = None"
    and "clientDo env (newRequest e url payload) = Inr resp"
    and "StatusCode resp = 429 \<or> StatusCode resp = 503"
    and "- 1 \<le> ContentLength resp"
    and "Atoi (IntSize env) (Header_Get (RespHeader resp) headerRetryAfter) = Inr n"
    and "n < 0" and "- 9223372036 \<le> n"
  shows "\<exists>err. snd (export env e url payload w) = Return (ThrottledFailure err (n * Second))
           \<and> n * Second < 0"
proof -
  obtain rest st where r: "readResponse env resp = (rest, Return st)"
    using readResponse_returns [OF assms(4)] by blast
  have "Duration_times (retryAfter env resp) Second = n * Second"
    using assms(5-7) by (simp add: retryAfter_Atoi seconds_fit)
  then have "snd (classify env url resp)
          = Return (ThrottledFailure (formattedErr env url (StatusCode resp) st) (n * Second))"
    using assms(3) r by (auto simp: classify_def)
  then have "snd (export env e url payload w)
          = Return (ThrottledFailure (formattedErr env url (StatusCode resp) st) (n * Second))"
    using export_classify [OF assms(1,2)] by simp
  moreover have "n * Second < 0" using assms(6) by simp
  ultimately show ?thesis by blast
qed

text \<open>The claim's example: status 503 with \<open>Retry-After: -5\<close> gives minus five seconds.\<close>

theorem export_throttled_negative_witness:
  "\<exists>err. snd (export
      (example_env (Return (Inr []))
         (Inr (example_response 503 0 [headerRetryAfter \<mapsto> [''-5'']] [])) undecodable)
      (example_exporter False) ''http://collector:4318/v1/logs'' [] no_effects)
    = Return (ThrottledFailure err (- 5000000000))"
proof -
  let ?resp = "example_response 503 0 [headerRetryAfter \<mapsto> [''-5'']] []"
  let ?env = "example_env (Return (Inr [])) (Inr ?resp) undecodable"
  have "urlParse ?env ''http://collector:4318/v1/logs'' = None"
    and "clientDo ?env (newRequest (example_exporter False) ''http://collector:4318/v1/logs'' [])
           = Inr ?resp"
    and "StatusCode ?resp = 429 \<or> StatusCode ?resp = 503"
    and "- 1 \<le> ContentLength ?resp"
    and "Atoi (IntSize ?env) (Header_Get (RespHeader ?resp) headerRetryAfter) = Inr (- 5)"
    and "(- 5 :: int) < 0" and "- 9223372036 \<le> (- 5 :: int)"
    by (simp_all add: example_built example_response_def Header_Get_def Atoi_def is_digit_def
        digit_val_def)
  from export_throttled_negative [OF this, of no_effects] show ?thesis
    by simp
qed

text \<open>
  Claim C10 as stated fails below \<open>-9223372036\<close>: on a 64-bit platform
  \<open>Retry-After: -9223372037\<close> parses as a negative integer, and the product with
  \<open>time.Second\<close> wraps around to a positive duration.
\<close>

theorem export_throttled_negative_overflow:
  "Atoi 64 ''-9223372037'' = Inr (- 9223372037) \<and>
   snd (export
      (example_env (Return (Inr []))
         (Inr (example_response 503 0 [headerRetryAfter \<mapsto> [''-9223372037'']] [])) undecodable)
      (example_exporter False) ''http://collector:4318/v1/logs'' [] no_effects)
    = Return (ThrottledFailure
        (GoError (''error exporting items, request to http://collector:4318/v1/logs''
                  @ '' responded with HTTP Status Code 503'') None)
        9223372036709551616)
   \<and> (9223372036709551616 :: int) \<noteq> - 9223372037 * Second
   \<and> \<not> (9223372036709551616 :: int) < 0"
  by (simp add: export_def classify_def readResponse_def maxRead_def ReadFull_def
      formattedErr_def retryAfter_def Header_Get_def Atoi_def is_digit_def digit_val_def
      Duration_times_def wrap_int64_def example_env_def example_response_def
      example_exporter_def no_effects_def Debug_def undecodable_def Itoa_def itoa_nat.simps
      Let_def)

subsection \<open>Malformed requests: 400\<close>

text \<open>
  Claim C4. For a response with status code 400 (and a content length of at least
  \<open>-1\<close>), \<open>export\<close> returns a \<open>PermanentFailure\<close>, whose error is the formatted error
  for the status \<open>readResponse\<close> decoded.
\<close>

theorem export_bad_request:
  assumes "urlParse env url = None"
    and "clientDo env (newRequest e url payload) = Inr resp"
    and "StatusCode resp = 400"
    and "- 1 \<le> ContentLength resp"
  shows "\<exists>st. snd (readResponse env resp) = Return st \<and>
           snd (export env e url payload w)
             = Return (PermanentFailure (formattedErr env url 400 st))"
proof -
  obtain rest st where r: "readResponse env resp = (rest, Return st)"
    using readResponse_returns [OF assms(4)] by blast
  have "snd (classify env url resp) = Return (PermanentFailure (formattedErr env url 400 st))"
    using assms(3) r by (simp add: classify_def)
  with r show ?thesis
    using export_classify [OF assms(1,2)] by simp
qed

theorem export_bad_request_witness:
  "\<exists>err. snd (export
      (example_env (Return (Inr []))
         (Inr (example_response 400 0 Map.empty [])) undecodable)
      (example_exporter False) ''http://collector:4318/v1/logs'' [] no_effects)
    = Return (PermanentFailure err)"
proof -
  let ?resp = "example_response 400 0 Map.empty []"
  let ?env = "example_env (Return (Inr [])) (Inr ?resp) undecodable"
  have "urlParse ?env ''http://collector:4318/v1/logs'' = None"
    and "clientDo ?env (newRequest (example_exporter False) ''http://collector:4318/v1/logs'' [])
           = Inr ?resp"
    and "StatusCode ?resp = 400"
    and "- 1 \<le> ContentLength ?resp"
    by (simp_all add: example_built example_response_def)
  from export_bad_request [OF this, of no_effects] show ?thesis
    by blast
qed

subsection \<open>Every other status code\<close>

text \<open>
  Claim C5. For a response whose status code is outside 200-299 and is none of 429, 503
  and 400 (with a content length of at least \<open>-1\<close>), \<open>export\<close> returns a
  \<open>RetryableFailure\<close>: the formatted error itself, wrapped neither as permanent nor as a
  throttle. The codes below 200, from 300 to 399 and above 599 are included.
\<close>

theorem export_other_retryable:
  assumes "urlParse env url = None"
    and "clientDo env (newRequest e url payload) = Inr resp"
    and "\<not> (200 \<le> StatusCode resp \<and> StatusCode resp \<le> 299)"
    and "StatusCode resp \<noteq> 429" and "StatusCode resp \<noteq> 503" and "StatusCode resp \<noteq> 400"
    and "- 1 \<le> ContentLength resp"
  shows "\<exists>st. snd (readResponse env resp) = Return st \<and>
           snd (export env e url payload w)
             = Return (RetryableFailure (formattedErr env url (StatusCode resp) st))"
proof -
  obtain rest st where r: "readResponse env resp = (rest, Return st)"
    using readResponse_returns [OF assms(7)] by blast
  have "snd (classify env url resp)
          = Return (RetryableFailure (formattedErr env url (StatusCode resp) st))"
    using assms(3-6) r by (simp add: classify_def)
  with r show ?thesis
    using export_classify [OF assms(1,2)] by simp
qed

theorem export_other_retryable_witness:
  "(\<exists>err. snd (export
      (example_env (Return (Inr []))
         (Inr (example_response 500 0 Map.empty [])) undecodable)
      (example_exporter False) ''http://collector:4318/v1/logs'' [] no_effects)
    = Return (RetryableFailure err)) \<and>
   (\<exists>err. snd (export
      (example_env (Return (Inr []))
         (Inr (example_response 304 0 Map.empty [])) undecodable)
      (example_exporter False) ''http://collector:4318/v1/logs'' [] no_effects)
    = Return (RetryableFailure err))"
proof -
  let ?url = "''http://collector:4318/v1/logs''"
  let ?r500 = "example_response 500 0 Map.empty []"
  let ?e500 = "example_env (Return (Inr [])) (Inr ?r500) undecodable"
  let ?r304 = "example_response 304 0 Map.empty []"
  let ?e304 = "example_env (Return (Inr [])) (Inr ?r304) undecodable"
  have "urlParse ?e500 ?url = None"
    and "clientDo ?e500 (newRequest (example_exporter False) ?url []) = Inr ?r500"
    and "\<not> (200 \<le> StatusCode ?r500 \<and> StatusCode ?r500 \<le> 299)"
    and "StatusCode ?r500 \<noteq> 429" and "StatusCode ?r500 \<noteq> 503" and "StatusCode ?r500 \<noteq> 400"
    and "- 1 \<le> ContentLength ?r500"
    by (simp_all add: example_built example_response_def)
  from export_other_retryable [OF this, of no_effects] have a: "\<exists>err. snd (export ?e500
      (example_exporter False) ?url [] no_effects) = Return (RetryableFailure err)"
    by blast
  have "urlParse ?e304 ?url = None"
    and "clientDo ?e304 (newRequest (example_exporter False) ?url []) = Inr ?r304"
    and "\<not> (200 \<le> StatusCode ?r304 \<and> StatusCode ?r304 \<le> 299)"
    and "StatusCode ?r304 \<noteq> 429" and "StatusCode ?r304 \<noteq> 503" and "StatusCode ?r304 \<noteq> 400"
    and "- 1 \<le> ContentLength ?r304"
    by (simp_all add: example_built example_response_def)
  from export_other_retryable [OF this, of no_effects] have b: "\<exists>err. snd (export ?e304
      (example_exporter False) ?url [] no_effects) = Return (RetryableFailure err)"
    by blast
  from a b show ?thesis by blast
qed

subsection \<open>The effects of the debug helpers\<close>

lemma same_traffic_refl: "same_traffic w w"
  by (simp add: same_traffic_def)

lemma same_traffic_trans: "same_traffic a b \<Longrightarrow> same_traffic b c \<Longrightarrow> same_traffic a c"
  by (simp add: same_traffic_def)

lemma same_traffic_Debug: "same_traffic w (Debug e msg kvs w)"
  by (simp add: same_traffic_def Debug_def)

lemma logTextLogs_returns:
  "\<exists>w1 s. logTextLogsWithErrorHandled env e ld w = (w1, Return s) \<and> same_traffic w w1"
  by (simp add: logTextLogsWithErrorHandled_def same_traffic_Debug same_traffic_refl
      split: sum.splits)

lemma logTextTraces_returns:
  "\<exists>w1 s. logTextTracesWithErrorHandled env e td w = (w1, Return s) \<and> same_traffic w w1"
  by (simp add: logTextTracesWithErrorHandled_def same_traffic_Debug same_traffic_refl
      split: sum.splits)

lemma logTextMetrics_returns:
  "\<exists>w1 s. logTextMetricsWithErrorHandled env e (AMetrics md) w = (w1, Return s)
     \<and> same_traffic w w1"
  by (simp add: logTextMetricsWithErrorHandled_def same_traffic_Debug same_traffic_refl
      split: sum.splits)

lemma logTextMetrics_traffic:
  "same_traffic w (fst (logTextMetricsWithErrorHandled env e d w))"
  by (simp add: logTextMetricsWithErrorHandled_def same_traffic_Debug same_traffic_refl
      split: sum.splits pdata.splits)

lemma logTextTraces_traffic:
  "same_traffic w (fst (logTextTracesWithErrorHandled env e td w))"
  by (simp add: logTextTracesWithErrorHandled_def same_traffic_Debug same_traffic_refl
      split: sum.splits)

lemma logAndRethrowIfPanic_Return:
  "logAndRethrowIfPanic e before f (w, Return x) = (w, Return x)"
  by (simp add: logAndRethrowIfPanic_def)

lemma logAndRethrowIfPanic_panics:
  "\<exists>q. snd (logAndRethrowIfPanic e before f (w, Panic p)) = Panic q"
  by (auto simp: logAndRethrowIfPanic_def Let_def split: prod.splits result.splits)

lemma logAndRethrowIfPanic_traffic:
  assumes "\<And>w. same_traffic w (fst (f w))"
  shows "same_traffic (fst wr) (fst (logAndRethrowIfPanic e before f wr))"
proof (cases wr)
  case (Pair w r)
  show ?thesis
  proof (cases r)
    case (Return x)
    with Pair show ?thesis by (simp add: logAndRethrowIfPanic_Return same_traffic_refl)
  next
    case (Panic p)
    let ?w1 = "Debug e (''Before panic: '' @ before) [] w"
    have a: "same_traffic w ?w1" by (rule same_traffic_Debug)
    have b: "same_traffic ?w1 (fst (f ?w1))" by (rule assms)
    obtain w2 r2 where f: "f ?w1 = (w2, r2)" by (cases "f ?w1")
    with a b have c: "same_traffic w w2" by (auto intro: same_traffic_trans)
    have "same_traffic w (Debug e (''Panic: '' @ s) [] w2)" for s
      using c same_traffic_Debug [of w2] by (blast intro: same_traffic_trans)
    with c show ?thesis
      using Pair Panic f by (simp add: logAndRethrowIfPanic_def Let_def split: result.splits)
  qed
qed

subsection \<open>The effects and the result of \<open>export\<close>\<close>

lemma export_snd_indep:
  "userAgent e' = userAgent e \<Longrightarrow>
   snd (export env e' url payload w') = snd (export env e url payload w)"
  by (simp add: export_def Let_def newRequest_def split: option.splits sum.splits prod.splits)

lemma export_returns:
  assumes "\<forall>req resp. clientDo env req = Inr resp \<longrightarrow> - 1 \<le> ContentLength resp"
  shows "\<exists>out. snd (export env e url payload w) = Return out"
proof (cases "urlParse env url")
  case (Some err)
  then show ?thesis by (simp add: export_def Let_def)
next
  case None
  show ?thesis
  proof (cases "clientDo env (newRequest e url payload)")
    case (Inl err)
    with None show ?thesis by (simp add: export_def Let_def)
  next
    case (Inr resp)
    with assms have "- 1 \<le> ContentLength resp" by blast
    then obtain rest st where "readResponse env resp = (rest, Return st)"
      using readResponse_returns by blast
    then have "\<exists>out. snd (classify env url resp) = Return out"
      by (simp add: classify_def Let_def)
    then show ?thesis
      using export_classify [OF None Inr] by simp
  qed
qed

lemma readResponse_rest:
  "readResponse env resp = (rest, r) \<Longrightarrow>
   length (Body resp) - length rest \<le> nat maxHTTPResponseReadBytes"
  using maxRead_cap [of resp]
  by (auto simp: readResponse_def ReadFull_def Let_def split: if_splits sum.splits)

lemma classify_rest:
  "classify env url resp = (rest, r) \<Longrightarrow>
   length (Body resp) - length rest \<le> nat maxHTTPResponseReadBytes"
  using readResponse_rest [of env resp]
  by (auto simp: classify_def Let_def split: if_splits prod.splits result.splits)

lemma export_consumption:
  "bodyRead (fst (export env e url payload w)) \<le> bodyRead w + 65536
   \<and> bodyDrained (fst (export env e url payload w)) \<le> bodyDrained w + 65536"
proof (cases "urlParse env url")
  case (Some err)
  then show ?thesis by (simp add: export_def Let_def Debug_def)
next
  case None
  show ?thesis
  proof (cases "clientDo env (newRequest e url payload)")
    case (Inl err)
    with None show ?thesis by (simp add: export_def Let_def Debug_def)
  next
    case (Inr resp)
    obtain rest r where c: "classify env url resp = (rest, r)"
      by (cases "classify env url resp")
    from classify_rest [OF c] have "length (Body resp) - length rest \<le> 65536" by simp
    moreover have "CopyN_Discard rest (nat maxHTTPResponseReadBytes) \<le> 65536"
      by (simp add: CopyN_Discard_def)
    ultimately show ?thesis
      using None Inr c by (simp add: export_def Let_def Debug_def)
  qed
qed

subsection \<open>The push functions\<close>

lemma pushTraces_unfold:
  "pushTraces env e td w =
     (if debugEnabled e then
        case logTextTracesWithErrorHandled env e td w of
          (w1, Panic p) \<Rightarrow> (w1, Panic p)
        | (w1, Return beforeMarshal) \<Rightarrow>
            logAndRethrowIfPanic e beforeMarshal (logTextTracesWithErrorHandled env e td)
              (push_tail (TracesMarshalProto env td) env e (tracesURL e) w1)
      else push_tail (TracesMarshalProto env td) env e (tracesURL e) w)"
  unfolding pushTraces_def push_tail_def Let_def by simp

lemma pushMetrics_unfold:
  "pushMetrics env e md w =
     (if debugEnabled e then
        case logTextMetricsWithErrorHandled env e (AMetrics md) w of
          (w1, Panic p) \<Rightarrow> (w1, Panic p)
        | (w1, Return beforeMarshal) \<Rightarrow>
            logAndRethrowIfPanic e beforeMarshal
              (logTextMetricsWithErrorHandled env e (AMetrics md))
              (push_tail (MetricsMarshalProto env md) env e (metricsURL e) w1)
      else push_tail (MetricsMarshalProto env md) env e (metricsURL e) w)"
  unfolding pushMetrics_def push_tail_def Let_def by simp

lemma pushLogs_unfold:
  "pushLogs env e ld w =
     (if debugEnabled e then
        case logTextLogsWithErrorHandled env e ld w of
          (w1, Panic p) \<Rightarrow> (w1, Panic p)
        | (w1, Return beforeMarshal) \<Rightarrow>
            logAndRethrowIfPanic e beforeMarshal
              (logTextMetricsWithErrorHandled env e (ALogs ld))
              (push_tail (LogsMarshalProto env ld) env e (logsURL e) w1)
      else push_tail (LogsMarshalProto env ld) env e (logsURL e) w)"
  unfolding pushLogs_def push_tail_def Let_def by simp

lemma push_tail_consumption:
  "bodyRead (fst (push_tail m env e url w)) \<le> bodyRead w + 65536
   \<and> bodyDrained (fst (push_tail m env e url w)) \<le> bodyDrained w + 65536"
  using export_consumption [of env e url _ w]
  by (simp add: push_tail_def split: result.splits sum.splits)

lemma snd_logAndRethrowIfPanic_Return:
  "snd wr = Return out \<Longrightarrow> snd (logAndRethrowIfPanic e before f wr) = Return out"
  by (cases wr) (simp add: logAndRethrowIfPanic_Return)

text \<open>
  The wrapper of the debug prelude around the shared tail: the traffic is that of the
  tail, whatever the helper \<open>f\<close> logs.
\<close>

lemma deferred_consumption:
  assumes t: "same_traffic w w1"
    and f: "\<And>w. same_traffic w (fst (f w))"
  shows "bodyRead (fst (logAndRethrowIfPanic e s f (push_tail m env e url w1)))
           \<le> bodyRead w + 65536
         \<and> bodyDrained (fst (logAndRethrowIfPanic e s f (push_tail m env e url w1)))
           \<le> bodyDrained w + 65536"
proof -
  have "same_traffic (fst (push_tail m env e url w1))
          (fst (logAndRethrowIfPanic e s f (push_tail m env e url w1)))"
    by (rule logAndRethrowIfPanic_traffic) (rule f)
  then show ?thesis
    using t push_tail_consumption [of m env e url w1] by (simp add: same_traffic_def)
qed

lemma pushTraces_consumption:
  "bodyRead (fst (pushTraces env e td w)) \<le> bodyRead w + 65536
   \<and> bodyDrained (fst (pushTraces env e td w)) \<le> bodyDrained w + 65536"
proof (cases "debugEnabled e")
  case False
  then show ?thesis using push_tail_consumption by (simp add: pushTraces_unfold)
next
  case True
  obtain w1 s where t: "logTextTracesWithErrorHandled env e td w = (w1, Return s)"
    and s: "same_traffic w w1"
    using logTextTraces_returns [of env e td w] by blast
  show ?thesis
    using True t deferred_consumption [OF s, of "logTextTracesWithErrorHandled env e td"]
    by (simp add: pushTraces_unfold logTextTraces_traffic)
qed

lemma pushMetrics_consumption:
  "bodyRead (fst (pushMetrics env e md w)) \<le> bodyRead w + 65536
   \<and> bodyDrained (fst (pushMetrics env e md w)) \<le> bodyDrained w + 65536"
proof (cases "debugEnabled e")
  case False
  then show ?thesis using push_tail_consumption by (simp add: pushMetrics_unfold)
next
  case True
  obtain w1 s where t: "logTextMetricsWithErrorHandled env e (AMetrics md) w = (w1, Return s)"
    and s: "same_traffic w w1"
    using logTextMetrics_returns [of env e md w] by blast
  show ?thesis
    using True t
      deferred_consumption [OF s, of "logTextMetricsWithErrorHandled env e (AMetrics md)"]
    by (simp add: pushMetrics_unfold logTextMetrics_traffic)
qed

lemma pushLogs_consumption:
  "bodyRead (fst (pushLogs env e ld w)) \<le> bodyRead w + 65536
   \<and> bodyDrained (fst (pushLogs env e ld w)) \<le> bodyDrained w + 65536"
proof (cases "debugEnabled e")
  case False
  then show ?thesis using push_tail_consumption by (simp add: pushLogs_unfold)
next
  case True
  obtain w1 s where t: "logTextLogsWithErrorHandled env e ld w = (w1, Return s)"
    and s: "same_traffic w w1"
    using logTextLogs_returns [of env e ld w] by blast
  show ?thesis
    using True t
      deferred_consumption [OF s, of "logTextMetricsWithErrorHandled env e (ALogs ld)"]
    by (simp add: pushLogs_unfold logTextMetrics_traffic)
qed

subsection \<open>The size of what is read from the response body\<close>

text \<open>
  Claim C2, as amended. In one push call the bytes read from the response body for
  decoding the status never exceed 64 KiB, and the bytes drained before the body is
  closed never exceed 64 KiB, whatever content length the response declares; the two
  together never exceed 128 KiB.
\<close>

theorem push_body_consumption:
  "bodyRead (fst (pushTraces env e td w)) \<le> bodyRead w + 64 * 1024
   \<and> bodyDrained (fst (pushTraces env e td w)) \<le> bodyDrained w + 64 * 1024
   \<and> bodyRead (fst (pushTraces env e td w)) + bodyDrained (fst (pushTraces env e td w))
       \<le> bodyRead w + bodyDrained w + 128 * 1024
   \<and> bodyRead (fst (pushMetrics env e md w)) \<le> bodyRead w + 64 * 1024
   \<and> bodyDrained (fst (pushMetrics env e md w)) \<le> bodyDrained w + 64 * 1024
   \<and> bodyRead (fst (pushMetrics env e md w)) + bodyDrained (fst (pushMetrics env e md w))
       \<le> bodyRead w + bodyDrained w + 128 * 1024
   \<and> bodyRead (fst (pushLogs env e ld w)) \<le> bodyRead w + 64 * 1024
   \<and> bodyDrained (fst (pushLogs env e ld w)) \<le> bodyDrained w + 64 * 1024
   \<and> bodyRead (fst (pushLogs env e ld w)) + bodyDrained (fst (pushLogs env e ld w))
       \<le> bodyRead w + bodyDrained w + 128 * 1024"
  using pushTraces_consumption [of env e td w] pushMetrics_consumption [of env e md w]
    pushLogs_consumption [of env e ld w]
  by simp

text \<open>
  Claim C2 as stated fails: for a status 500 response with a body of 64 KiB + 1 bytes
  (declared as such), \<open>readResponse\<close> reads 64 KiB and the deferred \<open>io.CopyN\<close> drains
  the byte that is left, 64 KiB + 1 bytes in all.
\<close>

theorem push_body_consumption_above_cap:
  "bodyRead (fst (pushLogs
      (example_env (Return (Inr []))
         (Inr (example_response 500 65537 Map.empty (replicate 65537 0))) undecodable)
      (example_exporter False) () no_effects)) = 65536
   \<and> bodyDrained (fst (pushLogs
      (example_env (Return (Inr []))
         (Inr (example_response 500 65537 Map.empty (replicate 65537 0))) undecodable)
      (example_exporter False) () no_effects)) = 1
   \<and> \<not> (65536 + 1 \<le> (64 * 1024 :: nat))"
  by (simp add: pushLogs_def export_def classify_def readResponse_def maxRead_def
      ReadFull_def CopyN_Discard_def example_env_def example_response_def
      example_exporter_def no_effects_def Debug_def undecodable_def Let_def)

subsection \<open>The outcome of a push whose batch was encoded\<close>

lemma pushTraces_outcome:
  assumes "TracesMarshalProto env td = Return (Inr payload)"
    and "\<And>w. snd (export env e (tracesURL e) payload w) = Return out"
  shows "snd (pushTraces env e td w) = Return out"
proof (cases "debugEnabled e")
  case False
  with assms show ?thesis by (simp add: pushTraces_unfold push_tail_def)
next
  case True
  obtain w1 s where "logTextTracesWithErrorHandled env e td w = (w1, Return s)"
    using logTextTraces_returns [of env e td w] by blast
  with True assms show ?thesis
    by (simp add: pushTraces_unfold push_tail_def snd_logAndRethrowIfPanic_Return)
qed

lemma pushMetrics_outcome:
  assumes "MetricsMarshalProto env md = Return (Inr payload)"
    and "\<And>w. snd (export env e (metricsURL e) payload w) = Return out"
  shows "snd (pushMetrics env e md w) = Return out"
proof (cases "debugEnabled e")
  case False
  with assms show ?thesis by (simp add: pushMetrics_unfold push_tail_def)
next
  case True
  obtain w1 s where "logTextMetricsWithErrorHandled env e (AMetrics md) w = (w1, Return s)"
    using logTextMetrics_returns [of env e md w] by blast
  with True assms show ?thesis
    by (simp add: pushMetrics_unfold push_tail_def snd_logAndRethrowIfPanic_Return)
qed

lemma pushLogs_outcome:
  assumes "LogsMarshalProto env ld = Return (Inr payload)"
    and "\<And>w. snd (export env e (logsURL e) payload w) = Return out"
  shows "snd (pushLogs env e ld w) = Return out"
proof (cases "debugEnabled e")
  case False
  with assms show ?thesis by (simp add: pushLogs_unfold push_tail_def)
next
  case True
  obtain w1 s where "logTextLogsWithErrorHandled env e ld w = (w1, Return s)"
    using logTextLogs_returns [of env e ld w] by blast
  with True assms show ?thesis
    by (simp add: pushLogs_unfold push_tail_def snd_logAndRethrowIfPanic_Return)
qed

subsection \<open>Transport errors\<close>

lemma export_transport_error:
  assumes "urlParse env url = None"
    and "clientDo env (newRequest e url payload) = Inl err"
  shows "snd (export env e url payload w)
           = Return (RetryableFailure
               (GoError (''failed to make an HTTP request: '' @ Error err) (Some err)))"
  using assms by (simp add: export_def Let_def)

text \<open>
  Claim C6. When the request was built and \<open>e.client.Do\<close> returns an error instead of
  a response, \<open>export\<close> returns a \<open>RetryableFailure\<close>: the transport error, wrapped by
  \<open>fmt.Errorf\<close> and by nothing else. Each of the three push functions returns that
  outcome when the request it built from its batch fails so.
\<close>

theorem transport_error_retryable:
  assumes "urlParse env url = None"
    and "clientDo env (newRequest e url payload) = Inl err"
  shows "snd (export env e url payload w)
           = Return (RetryableFailure
               (GoError (''failed to make an HTTP request: '' @ Error err) (Some err)))
         \<and> (TracesMarshalProto env td = Return (Inr payload) \<and> url = tracesURL e \<longrightarrow>
              snd (pushTraces env e td w)
                = Return (RetryableFailure
                    (GoError (''failed to make an HTTP request: '' @ Error err) (Some err))))
         \<and> (MetricsMarshalProto env md = Return (Inr payload) \<and> url = metricsURL e \<longrightarrow>
              snd (pushMetrics env e md w)
                = Return (RetryableFailure
                    (GoError (''failed to make an HTTP request: '' @ Error err) (Some err))))
         \<and> (LogsMarshalProto env ld = Return (Inr payload) \<and> url = logsURL e \<longrightarrow>
              snd (pushLogs env e ld w)
                = Return (RetryableFailure
                    (GoError (''failed to make an HTTP request: '' @ Error err) (Some err))))"
  using export_transport_error [OF assms]
  by (auto intro: pushTraces_outcome pushMetrics_outcome pushLogs_outcome)

theorem transport_error_retryable_witness:
  "snd (pushLogs
      (example_env (Return (Inr [10, 0]))
         (Inl (GoError ''dial tcp 127.0.0.1:4318: connect: connection refused'' None))
         undecodable)
      (example_exporter True) () no_effects)
    = Return (RetryableFailure
        (GoError (''failed to make an HTTP request: ''
                  @ ''dial tcp 127.0.0.1:4318: connect: connection refused'')
           (Some (GoError ''dial tcp 127.0.0.1:4318: connect: connection refused'' None))))"
proof -
  let ?err = "GoError ''dial tcp 127.0.0.1:4318: connect: connection refused'' None"
  let ?env = "example_env (Return (Inr [10, 0])) (Inl ?err) undecodable"
  let ?e = "example_exporter True"
  have "urlParse ?env (logsURL ?e) = None"
    and "clientDo ?env (newRequest ?e (logsURL ?e) [10, 0]) = Inl ?err"
    by (simp_all add: example_built)
  from transport_error_retryable [OF this, where ld = "()" and w = no_effects] show ?thesis
    by (simp add: example_env_def)
qed

subsection \<open>Encoding failures\<close>




subsection \<open>Debug logging and panics\<close>

lemma export_traffic_debug:
  "same_traffic w w' \<Longrightarrow>
   same_traffic (fst (export env (e\<lparr>debugEnabled := b\<rparr>) url payload w))
     (fst (export env (e\<lparr>debugEnabled := b'\<rparr>) url payload w'))"
  by (simp add: export_def Let_def same_traffic_def Debug_def newRequest_def
      split: option.splits sum.splits prod.splits)

lemma push_tail_traffic_debug:
  "same_traffic w w' \<Longrightarrow>
   same_traffic (fst (push_tail m env (e\<lparr>debugEnabled := b\<rparr>) url w))
     (fst (push_tail m env (e\<lparr>debugEnabled := b'\<rparr>) url w'))"
  using export_traffic_debug [where w = w and w' = w' and env = env and e = e and b = b
      and url = url and b' = b']
  by (simp add: push_tail_def split: result.splits sum.splits)

lemma push_tail_Return:
  assumes "\<forall>req resp. clientDo env req = Inr resp \<longrightarrow> - 1 \<le> ContentLength resp"
  shows "\<exists>out. \<forall>b w. snd (push_tail (Return r) env (e\<lparr>debugEnabled := b\<rparr>) url w) = Return out"
proof (cases r)
  case (Inl err)
  then show ?thesis by (simp add: push_tail_def)
next
  case (Inr payload)
  obtain out where o: "snd (export env e url payload no_effects) = Return out"
    using export_returns [OF assms] by blast
  have "snd (export env (e\<lparr>debugEnabled := b\<rparr>) url payload w) = Return out" for b w
    using o export_snd_indep [of "e\<lparr>debugEnabled := b\<rparr>" e env url payload w no_effects]
    by simp
  with Inr show ?thesis by (simp add: push_tail_def)
qed

text \<open>
  \<open>pushLogs_live\<close> read through the shared tail. With the well-behaved marshaler of the
  collaborators it is \<open>pushLogs\<close>.
\<close>

lemma pushLogs_live_unfold:
  "pushLogs_live env marshalLogs e ld w =
     (if debugEnabled e then
        case logTextLogsWithErrorHandled_live marshalLogs e ld w of
          (w1, Panic p) \<Rightarrow> (w1, Panic p)
        | (w1, Return (ld', beforeMarshal)) \<Rightarrow>
            logAndRethrowIfPanic e beforeMarshal
              (logTextMetricsWithErrorHandled env e (ALogs ld'))
              (push_tail (LogsMarshalProto env ld') env e (logsURL e) w1)
      else push_tail (LogsMarshalProto env ld) env e (logsURL e) w)"
  unfolding pushLogs_live_def push_tail_def Let_def by simp

lemma pushLogs_live_well_behaved:
  "pushLogs_live env (\<lambda>ld. Return (ld, MarshalLogs env ld)) e ld w = pushLogs env e ld w"
  by (simp add: pushLogs_live_unfold pushLogs_unfold logTextLogsWithErrorHandled_live_def
      logTextLogsWithErrorHandled_def split: sum.splits)

lemma logTextLogs_live_returns:
  "marshalLogs ld = Return (ld', t) \<Longrightarrow>
   \<exists>w1 s. logTextLogsWithErrorHandled_live marshalLogs e ld w = (w1, Return (ld', s))
     \<and> same_traffic w w1"
  by (simp add: logTextLogsWithErrorHandled_live_def same_traffic_Debug same_traffic_refl
      split: sum.splits)

lemma logTextLogs_live_panics:
  "marshalLogs ld = Panic p \<Longrightarrow>
   logTextLogsWithErrorHandled_live marshalLogs e ld w = (w, Panic p)"
  by (simp add: logTextLogsWithErrorHandled_live_def)

text \<open>
  When the text marshaler returns, the push with debug logging enabled is, up to the
  debug log, the push with debug logging disabled of the batch as the marshaler left
  it.
\<close>

lemma pushLogs_live_traffic:
  assumes "marshalLogs ld = Return (ld', t)"
  shows "same_traffic (fst (pushLogs_live env marshalLogs (e\<lparr>debugEnabled := False\<rparr>) ld' w))
           (fst (pushLogs_live env marshalLogs (e\<lparr>debugEnabled := True\<rparr>) ld w))"
proof -
  let ?on = "e\<lparr>debugEnabled := True\<rparr>" and ?off = "e\<lparr>debugEnabled := False\<rparr>"
  let ?m = "LogsMarshalProto env ld'"
  obtain w1 s where t:
    "logTextLogsWithErrorHandled_live marshalLogs ?on ld w = (w1, Return (ld', s))"
    and s: "same_traffic w w1"
    using logTextLogs_live_returns [of marshalLogs ld ld' t ?on w] assms by blast
  let ?tail = "push_tail ?m env ?on (logsURL e) w1"
  have a: "same_traffic (fst (push_tail ?m env ?off (logsURL e) w)) (fst ?tail)"
    by (rule push_tail_traffic_debug [OF s])
  have b: "same_traffic (fst ?tail)
             (fst (logAndRethrowIfPanic ?on s
                     (logTextMetricsWithErrorHandled env ?on (ALogs ld')) ?tail))"
    by (rule logAndRethrowIfPanic_traffic) (rule logTextMetrics_traffic)
  from same_traffic_trans [OF a b] show ?thesis
    using t by (simp add: pushLogs_live_unfold)
qed

lemma pushLogs_live_outcome:
  assumes "\<forall>req resp. clientDo env req = Inr resp \<longrightarrow> - 1 \<le> ContentLength resp"
    and "marshalLogs ld = Return (ld', t)"
    and "LogsMarshalProto env ld' = Return r"
  shows "\<exists>out. snd (pushLogs_live env marshalLogs (e\<lparr>debugEnabled := True\<rparr>) ld w) = Return out
           \<and> snd (pushLogs_live env marshalLogs (e\<lparr>debugEnabled := False\<rparr>) ld' w)
               = Return out"
proof -
  obtain out where o:
    "\<And>b w. snd (push_tail (Return r) env (e\<lparr>debugEnabled := b\<rparr>) (logsURL e) w) = Return out"
    using push_tail_Return [OF assms(1), of r e "logsURL e"] by blast
  obtain w1 s where t:
    "logTextLogsWithErrorHandled_live marshalLogs (e\<lparr>debugEnabled := True\<rparr>) ld w
       = (w1, Return (ld', s))"
    using logTextLogs_live_returns [of marshalLogs ld ld' t "e\<lparr>debugEnabled := True\<rparr>" w]
      assms(2)
    by blast
  have on: "snd (pushLogs_live env marshalLogs (e\<lparr>debugEnabled := True\<rparr>) ld w) = Return out"
    using assms(3) t o [of True w1]
    by (simp add: pushLogs_live_unfold snd_logAndRethrowIfPanic_Return)
  have off: "snd (pushLogs_live env marshalLogs (e\<lparr>debugEnabled := False\<rparr>) ld' w)
               = Return out"
    using assms(3) o [of False w] by (simp add: pushLogs_live_unfold)
  from on off show ?thesis by blast
qed

lemma pushLogs_live_off_same_encoding:
  "LogsMarshalProto env ld' = LogsMarshalProto env ld \<Longrightarrow>
   pushLogs_live env marshalLogs (e\<lparr>debugEnabled := False\<rparr>) ld' w
     = pushLogs_live env marshalLogs (e\<lparr>debugEnabled := False\<rparr>) ld w"
  by (simp add: pushLogs_live_unfold)

text \<open>
  Claim C3, as amended, on \<open>pushLogs_live\<close>: the text marshaler works on the live batch
  and may panic. Let the client hand over responses with a content length of at least
  \<open>-1\<close> only.
  \<^item> When the text marshaler returns and \<open>MarshalProto\<close> encodes the batch as the
    marshaler left it as it encodes the batch as it was handed over (so when the
    marshaler reordered nothing), and \<open>MarshalProto\<close> returns, a payload or an error:
    \<open>pushLogs\<close> returns one and the same outcome, without a panic, with debug-level
    logging enabled and disabled, and the two runs send the same requests and consume
    the same bytes of the response body.
  \<^item> When the text marshaler panics, \<open>pushLogs\<close> with debug-level logging enabled panics
    with that panic before anything is encoded or sent: the call stands outside any
    \<open>recover\<close>.
  \<^item> When \<open>MarshalProto\<close> panics, \<open>pushLogs\<close> panics, with debug-level logging enabled
    (if the text marshaler returned) and disabled: the deferred \<open>logAndRethrowIfPanic\<close>
    logs and panics again, it absorbs nothing.
  \<^item> With debug-level logging disabled the text marshaler has no part: \<open>pushLogs\<close>
    returns an outcome whenever \<open>MarshalProto\<close> returns.
\<close>

theorem pushLogs_debug_side_channel:
  assumes "\<forall>req resp. clientDo env req = Inr resp \<longrightarrow> - 1 \<le> ContentLength resp"
  shows "(\<forall>ld' t r. marshalLogs ld = Return (ld', t)
              \<and> LogsMarshalProto env ld' = LogsMarshalProto env ld
              \<and> LogsMarshalProto env ld = Return r \<longrightarrow>
            (\<exists>out. snd (pushLogs_live env marshalLogs (e\<lparr>debugEnabled := True\<rparr>) ld w)
                     = Return out
                 \<and> snd (pushLogs_live env marshalLogs (e\<lparr>debugEnabled := False\<rparr>) ld w)
                     = Return out)
            \<and> same_traffic
                 (fst (pushLogs_live env marshalLogs (e\<lparr>debugEnabled := False\<rparr>) ld w))
                 (fst (pushLogs_live env marshalLogs (e\<lparr>debugEnabled := True\<rparr>) ld w)))
         \<and> (\<forall>p. marshalLogs ld = Panic p \<longrightarrow>
            pushLogs_live env marshalLogs (e\<lparr>debugEnabled := True\<rparr>) ld w = (w, Panic p))
         \<and> (\<forall>ld' t p. marshalLogs ld = Return (ld', t) \<and> LogsMarshalProto env ld' = Panic p \<longrightarrow>
            (\<exists>q. snd (pushLogs_live env marshalLogs (e\<lparr>debugEnabled := True\<rparr>) ld w)
                    = Panic q))
         \<and> (\<forall>p. LogsMarshalProto env ld = Panic p \<longrightarrow>
            snd (pushLogs_live env marshalLogs (e\<lparr>debugEnabled := False\<rparr>) ld w) = Panic p)
         \<and> (\<forall>r. LogsMarshalProto env ld = Return r \<longrightarrow>
            (\<exists>out. snd (pushLogs_live env marshalLogs (e\<lparr>debugEnabled := False\<rparr>) ld w)
                     = Return out))"
proof (intro conjI allI impI)
  fix ld' t r
  assume h: "marshalLogs ld = Return (ld', t)
               \<and> LogsMarshalProto env ld' = LogsMarshalProto env ld
               \<and> LogsMarshalProto env ld = Return r"
  then have same: "pushLogs_live env marshalLogs (e\<lparr>debugEnabled := False\<rparr>) ld' w
                     = pushLogs_live env marshalLogs (e\<lparr>debugEnabled := False\<rparr>) ld w"
    by (simp add: pushLogs_live_off_same_encoding)
  from h have enc: "LogsMarshalProto env ld' = Return r" by simp
  from h have mar: "marshalLogs ld = Return (ld', t)" by simp
  show "\<exists>out. snd (pushLogs_live env marshalLogs (e\<lparr>debugEnabled := True\<rparr>) ld w) = Return out
           \<and> snd (pushLogs_live env marshalLogs (e\<lparr>debugEnabled := False\<rparr>) ld w)
               = Return out"
    using pushLogs_live_outcome [where env = env and marshalLogs = marshalLogs and ld = ld
        and ld' = ld' and t = t and r = r and e = e and w = w] assms mar enc same
    by simp
  show "same_traffic
          (fst (pushLogs_live env marshalLogs (e\<lparr>debugEnabled := False\<rparr>) ld w))
          (fst (pushLogs_live env marshalLogs (e\<lparr>debugEnabled := True\<rparr>) ld w))"
    using pushLogs_live_traffic [where marshalLogs = marshalLogs and ld = ld and ld' = ld'
        and t = t and env = env and e = e and w = w] mar same
    by simp
next
  fix p
  assume "marshalLogs ld = Panic p"
  then show "pushLogs_live env marshalLogs (e\<lparr>debugEnabled := True\<rparr>) ld w = (w, Panic p)"
    by (simp add: pushLogs_live_unfold logTextLogs_live_panics)
next
  fix ld' t p
  assume h: "marshalLogs ld = Return (ld', t) \<and> LogsMarshalProto env ld' = Panic p"
  then obtain w1 s where
    "logTextLogsWithErrorHandled_live marshalLogs (e\<lparr>debugEnabled := True\<rparr>) ld w
       = (w1, Return (ld', s))"
    using logTextLogs_live_returns [of marshalLogs ld ld' t "e\<lparr>debugEnabled := True\<rparr>" w]
    by blast
  with h show "\<exists>q. snd (pushLogs_live env marshalLogs (e\<lparr>debugEnabled := True\<rparr>) ld w)
                      = Panic q"
    using logAndRethrowIfPanic_panics
    by (simp add: pushLogs_live_unfold push_tail_def)
next
  fix p
  assume "LogsMarshalProto env ld = Panic p"
  then show "snd (pushLogs_live env marshalLogs (e\<lparr>debugEnabled := False\<rparr>) ld w) = Panic p"
    by (simp add: pushLogs_live_unfold push_tail_def)
next
  fix r
  assume m: "LogsMarshalProto env ld = Return r"
  obtain out where
    "\<And>b w. snd (push_tail (Return r) env (e\<lparr>debugEnabled := b\<rparr>) (logsURL e) w) = Return out"
    using push_tail_Return [OF assms, of r e "logsURL e"] by blast
  from this [of False w] m
  show "\<exists>out. snd (pushLogs_live env marshalLogs (e\<lparr>debugEnabled := False\<rparr>) ld w)
                 = Return out"
    by (simp add: pushLogs_live_unfold)
qed

lemma example_exporter_debug:
  "example_exporter d\<lparr>debugEnabled := b\<rparr> = example_exporter b"
  by (simp add: example_exporter_def)

lemma ordered_logs_built:
  "clientDo (ordered_logs_env answer) req = answer"
  "LogsMarshalProto (ordered_logs_env answer) ld = Return (Inr (map of_nat ld))"
  by (simp_all add: ordered_logs_env_def)

text \<open>
  A batch whose keys are sorted already, so that the sorting text marshaler leaves it
  as it is, answered with status 500: the same outcome with debug logging on and off.
\<close>

theorem pushLogs_debug_side_channel_witness:
  "\<exists>out. snd (pushLogs_live
      (ordered_logs_env (Inr (example_response 500 0 Map.empty [])))
      sorting_marshaler (example_exporter True) [1, 2] no_effects) = Return out
    \<and> snd (pushLogs_live
      (ordered_logs_env (Inr (example_response 500 0 Map.empty [])))
      sorting_marshaler (example_exporter False) [1, 2] no_effects) = Return out"
proof -
  let ?env = "ordered_logs_env (Inr (example_response 500 0 Map.empty []))"
  have wf: "\<forall>req resp. clientDo ?env req = Inr resp \<longrightarrow> - 1 \<le> ContentLength resp"
    by (simp add: ordered_logs_built example_response_def)
  have h: "sorting_marshaler [1, 2] = Return ([1, 2], Inr ''ResourceLog #0'')
            \<and> LogsMarshalProto ?env [1, 2] = LogsMarshalProto ?env [1, 2]
            \<and> LogsMarshalProto ?env [1, 2] = Return (Inr [1, 2])"
    by (simp add: sorting_marshaler_def ordered_logs_built)
  from pushLogs_debug_side_channel [OF wf, of sorting_marshaler "[1, 2]"
      "example_exporter True" no_effects] h
  show ?thesis
    by (simp add: example_exporter_debug)
qed

text \<open>
  Claim C3 as stated fails. On a batch on which the text marshaler panics while the
  encoder and the server have no complaint, \<open>pushLogs\<close> returns \<open>Success\<close> with debug
  logging disabled and panics, with nothing sent, with debug logging enabled. And on a
  batch whose keys are not sorted, the text marshaler sorts them in place before the
  batch is encoded, so that the run with debug logging enabled sends another request
  body than the run without.
\<close>

theorem pushLogs_debug_not_side_channel:
  "snd (pushLogs_live (ordered_logs_env (Inr (example_response 200 0 Map.empty [])))
      panicking_marshaler (example_exporter False) [2, 1] no_effects)
     = Return Success
   \<and> pushLogs_live (ordered_logs_env (Inr (example_response 200 0 Map.empty [])))
      panicking_marshaler (example_exporter True) [2, 1] no_effects
     = (no_effects,
        Panic (ForeignPanic ''runtime error: invalid memory address or nil pointer dereference''))
   \<and> map ReqBody (sent (fst (pushLogs_live
      (ordered_logs_env (Inr (example_response 200 0 Map.empty [])))
      sorting_marshaler (example_exporter False) [2, 1] no_effects))) = [[2, 1]]
   \<and> map ReqBody (sent (fst (pushLogs_live
      (ordered_logs_env (Inr (example_response 200 0 Map.empty [])))
      sorting_marshaler (example_exporter True) [2, 1] no_effects))) = [[1, 2]]"
  by (simp add: pushLogs_live_def logTextLogsWithErrorHandled_live_def
      logAndRethrowIfPanic_def export_def classify_def newRequest_def
      CopyN_Discard_def ordered_logs_env_def sorting_marshaler_def panicking_marshaler_def
      example_response_def example_exporter_def no_effects_def Debug_def Let_def)

subsection \<open>The decoded status and the error message\<close>

lemma readResponse_no_status:
  assumes "- 1 \<le> ContentLength resp"
    and "Body resp = [] \<or> length (Body resp) < nat (maxRead resp)
         \<or> (\<exists>err. Unmarshal env (take (nat (maxRead resp)) (Body resp)) = Inl err)"
  shows "snd (readResponse env resp) = Return None"
  using assms maxRead_bounds [of resp]
  by (auto simp: readResponse_def ReadFull_def Let_def)

text \<open>
  Claim C8. For a response with a status code from 400 to 599 (and a content length of
  at least \<open>-1\<close>) whose body is empty, or ends before the \<open>maxRead\<close> bytes that
  \<open>readResponse\<close> sets out to read, or whose bytes read are rejected by
  \<open>proto.Unmarshal\<close>: \<open>readResponse\<close> returns no status (\<open>None\<close>, not a status with
  empty fields) and no error; \<open>export\<close> returns the outcome its status code selects
  (throttled for 429 and 503, permanent for 400, retryable otherwise); and the message
  of that outcome's error is made of the fixed text, the URL and the status code alone.
\<close>

theorem export_no_status:
  assumes "urlParse env url = None"
    and "clientDo env (newRequest e url payload) = Inr resp"
    and "400 \<le> StatusCode resp" and "StatusCode resp \<le> 599"
    and "- 1 \<le> ContentLength resp"
    and "Body resp = [] \<or> length (Body resp) < nat (maxRead resp)
         \<or> (\<exists>err. Unmarshal env (take (nat (maxRead resp)) (Body resp)) = Inl err)"
  shows "snd (readResponse env resp) = Return None
         \<and> snd (export env e url payload w)
           = Return
              (let err = GoError (''error exporting items, request to '' @ url
                           @ '' responded with HTTP Status Code '' @ Itoa (StatusCode resp)) None
               in if StatusCode resp = 429 \<or> StatusCode resp = 503
                  then ThrottledFailure err (Duration_times (retryAfter env resp) Second)
                  else if StatusCode resp = 400 then PermanentFailure err
                  else RetryableFailure err)"
proof -
  have none: "snd (readResponse env resp) = Return None"
    by (rule readResponse_no_status [OF assms(5,6)])
  then obtain rest where r: "readResponse env resp = (rest, Return None)"
    by (cases "readResponse env resp") simp
  have "snd (classify env url resp)
          = Return
              (let err = GoError (''error exporting items, request to '' @ url
                           @ '' responded with HTTP Status Code '' @ Itoa (StatusCode resp)) None
               in if StatusCode resp = 429 \<or> StatusCode resp = 503
                  then ThrottledFailure err (Duration_times (retryAfter env resp) Second)
                  else if StatusCode resp = 400 then PermanentFailure err
                  else RetryableFailure err)"
    using assms(3) r by (simp add: classify_def formattedErr_def Let_def)
  with none show ?thesis
    using export_classify [OF assms(1,2)] by simp
qed

text \<open>The spec's example: status 500 with a body that does not decode.\<close>

theorem export_no_status_witness:
  "snd (export
      (example_env (Return (Inr []))
         (Inr (example_response 500 3 Map.empty [255, 255, 255])) undecodable)
      (example_exporter False) ''http://collector:4318/v1/logs'' [] no_effects)
    = Return (RetryableFailure
        (GoError ''error exporting items, request to http://collector:4318/v1/logs responded with HTTP Status Code 500''
           None))"
proof -
  let ?resp = "example_response 500 3 Map.empty [255, 255, 255]"
  let ?env = "example_env (Return (Inr [])) (Inr ?resp) undecodable"
  have "urlParse ?env ''http://collector:4318/v1/logs'' = None"
    and "clientDo ?env (newRequest (example_exporter False) ''http://collector:4318/v1/logs'' [])
           = Inr ?resp"
    and "400 \<le> StatusCode ?resp" and "StatusCode ?resp \<le> 599"
    and "- 1 \<le> ContentLength ?resp"
    and "Body ?resp = [] \<or> length (Body ?resp) < nat (maxRead ?resp)
         \<or> (\<exists>err. Unmarshal ?env (take (nat (maxRead ?resp)) (Body ?resp)) = Inl err)"
    by (simp_all add: example_built example_response_def undecodable_def)
  from export_no_status [OF this, of no_effects] show ?thesis
    by (simp add: example_response_def Itoa_def itoa_nat.simps)
qed

text \<open>
  When the declared content length is the length of the body, at least one byte and at
  most the cap, and \<open>proto.Unmarshal\<close> decodes the body, the error message holds the
  URL, the status code, the decoded message and the decoded details.
\<close>

lemma formattedErr_decoded:
  assumes "400 \<le> StatusCode resp" and "StatusCode resp \<le> 599"
    and "ContentLength resp = int (length (Body resp))"
    and "0 < length (Body resp)" and "length (Body resp) \<le> 65536"
    and "Unmarshal env (Body resp) = Inr st"
  shows "snd (readResponse env resp) = Return (Some st)"
    and "Error (formattedErr env url (StatusCode resp) (Some st))
         = ''error exporting items, request to '' @ url
           @ '' responded with HTTP Status Code '' @ Itoa (StatusCode resp)
           @ '', Message='' @ Message st
           @ '', Details='' @ fmt_Details (anyString env) (Details st)"
  using assms
  by (simp_all add: readResponse_def maxRead_def ReadFull_def formattedErr_def Let_def)

text \<open>
  Claim C9, at the input where the code departs from it. A status 500 response carries
  the well-formed status body with the message \<open>overloaded\<close>. With the content length
  declared (12), the message of the outcome holds \<open>Message=overloaded\<close>. With the
  content length unknown (\<open>-1\<close>, as with chunked transfer encoding) \<open>io.ReadFull\<close> wants
  the whole 64 KiB buffer filled, ends in \<open>ErrUnexpectedEOF\<close> after the twelve bytes, and
  the status is dropped: the message holds the URL and the code only.
\<close>

theorem export_unknown_length_drops_status:
  "decode_overloaded overloaded_body = Inr \<lparr>Code = 0, Message = ''overloaded'', Details = []\<rparr>
   \<and> snd (export
      (example_env (Return (Inr []))
         (Inr (example_response 500 12 Map.empty overloaded_body)) decode_overloaded)
      (example_exporter False) ''http://collector:4318/v1/logs'' [] no_effects)
    = Return (RetryableFailure
        (GoError ''error exporting items, request to http://collector:4318/v1/logs responded with HTTP Status Code 500, Message=overloaded, Details=[]''
           None))
   \<and> snd (export
      (example_env (Return (Inr []))
         (Inr (example_response 500 (- 1) Map.empty overloaded_body)) decode_overloaded)
      (example_exporter False) ''http://collector:4318/v1/logs'' [] no_effects)
    = Return (RetryableFailure
        (GoError ''error exporting items, request to http://collector:4318/v1/logs responded with HTTP Status Code 500''
           None))"
  by (simp add: export_def classify_def readResponse_def maxRead_def ReadFull_def
      formattedErr_def fmt_Details_def example_env_def example_response_def
      example_exporter_def no_effects_def Debug_def decode_overloaded_def
      overloaded_body_def Itoa_def itoa_nat.simps Let_def)

end
